theory Spec2Isabelle
  imports Complex_Main
begin

section \<open>Python values\<close>

text \<open>
  The values that travel through the proxy are the results of \<open>json.loads\<close>, the
  scenario data, and the dictionaries the handler builds itself. A dictionary keeps
  its insertion order, so it is an association list with string keys; \<open>PNone\<close> is
  Python's \<open>None\<close>, \<open>PDatetime\<close> the value of \<open>datetime.now()\<close>.
\<close>

datatype pyval =
    PNone
  | PBool bool
  | PInt int
  | PFloat rat
  | PStr string
  | PList "pyval list"
  | PDict "(string \<times> pyval) list"
  | PDatetime nat

type_synonym pydict = "(string \<times> pyval) list"

datatype exn =
    KeyError string
  | IndexError
  | TypeError
  | AttributeError
  | JSONDecodeError
  | ConnectionClosed
  | ConnectError
  | AzureServiceError

text \<open>Truth value of an object, as \<open>if x:\<close> and \<open>not x\<close> test it.\<close>

fun truthy :: "pyval \<Rightarrow> bool" where
  "truthy PNone = False"
| "truthy (PBool b) = b"
| "truthy (PInt n) = (n \<noteq> 0)"
| "truthy (PFloat r) = (r \<noteq> 0)"
| "truthy (PStr s) = (s \<noteq> [])"
| "truthy (PList xs) = (xs \<noteq> [])"
| "truthy (PDict kvs) = (kvs \<noteq> [])"
| "truthy (PDatetime t) = True"

text \<open>\<open>d.get(key, default)\<close> on a dictionary.\<close>

definition dict_get :: "pydict \<Rightarrow> string \<Rightarrow> pyval \<Rightarrow> pyval" where
  "dict_get d k dflt = (case map_of d k of Some v \<Rightarrow> v | None \<Rightarrow> dflt)"

text \<open>\<open>d[key]\<close> on a dictionary: a missing key raises \<open>KeyError\<close>.\<close>

definition dict_index :: "pydict \<Rightarrow> string \<Rightarrow> exn + pyval" where
  "dict_index d k = (case map_of d k of Some v \<Rightarrow> Inr v | None \<Rightarrow> Inl (KeyError k))"

text \<open>\<open>d[key] = v\<close>: an existing key keeps its place, a new key goes last.\<close>

fun dict_set :: "pydict \<Rightarrow> string \<Rightarrow> pyval \<Rightarrow> pydict" where
  "dict_set [] k v = [(k, v)]"
| "dict_set ((k', v') # d) k v = (if k' = k then (k, v) # d else (k', v') # dict_set d k v)"

text \<open>
  \<open>x.get(key, default)\<close> on any value: only a dictionary has the method, every other
  JSON value raises \<open>AttributeError\<close>.
\<close>

definition py_get :: "pyval \<Rightarrow> string \<Rightarrow> pyval \<Rightarrow> exn + pyval" where
  "py_get x k dflt = (case x of PDict d \<Rightarrow> Inr (dict_get d k dflt) | _ \<Rightarrow> Inl AttributeError)"

text \<open>
  \<open>x[0]\<close>: the first element of a non-empty list or string; an empty one raises
  \<open>IndexError\<close>, a dictionary with string keys has no key \<open>0\<close>, and the other values
  are not subscriptable.
\<close>

definition py_first :: "pyval \<Rightarrow> exn + pyval" where
  "py_first x =
     (case x of
        PList [] \<Rightarrow> Inl IndexError
      | PList (y # ys) \<Rightarrow> Inr y
      | PStr [] \<Rightarrow> Inl IndexError
      | PStr (c # cs) \<Rightarrow> Inr (PStr [c])
      | PDict d \<Rightarrow> Inl (KeyError ''0'')
      | _ \<Rightarrow> Inl TypeError)"

text \<open>
  \<open>str(x)\<close> as an f-string applies it: a string is inserted as it is. The text of
  the other values is the parameter \<open>fmt\<close>.
\<close>

definition py_format :: "(pyval \<Rightarrow> string) \<Rightarrow> pyval \<Rightarrow> string" where
  "py_format fmt x = (case x of PStr s \<Rightarrow> s | _ \<Rightarrow> fmt x)"

section \<open>Process configuration (config.py)\<close>

record config =
  azure_ai_resource_name :: string
  azure_ai_project_name :: string
  project_endpoint :: string
  use_azure_ai_agents_cfg :: bool
  agent_id_cfg :: string
  azure_openai_api_key :: string
  model_deployment_name :: string

text \<open>\<open>os.getenv(name, default)\<close> over the process environment.\<close>

definition getenv :: "(string \<rightharpoonup> string) \<Rightarrow> string \<Rightarrow> string \<Rightarrow> string" where
  "getenv env name dflt = (case env name of Some v \<Rightarrow> v | None \<Rightarrow> dflt)"

text \<open>\<open>str.lower()\<close> on ASCII letters.\<close>

definition lower_char :: "char \<Rightarrow> char" where
  "lower_char c =
     (let n = (of_char c :: nat)
      in if 65 \<le> n \<and> n \<le> 90 then char_of (n + 32) else c)"

text \<open>
  \<open>Config._load_config\<close>, restricted to the entries the voice proxy and the agent
  manager read.
\<close>

definition load_config :: "(string \<rightharpoonup> string) \<Rightarrow> config" where
  "load_config env =
     \<lparr> azure_ai_resource_name = getenv env ''AZURE_AI_RESOURCE_NAME'' '''',
       azure_ai_project_name = getenv env ''AZURE_AI_PROJECT_NAME'' '''',
       project_endpoint = getenv env ''PROJECT_ENDPOINT'' '''',
       use_azure_ai_agents_cfg =
         (map lower_char (getenv env ''USE_AZURE_AI_AGENTS'' ''false'') = ''true''),
       agent_id_cfg = getenv env ''AGENT_ID'' '''',
       azure_openai_api_key = getenv env ''AZURE_OPENAI_API_KEY'' '''',
       model_deployment_name = getenv env ''MODEL_DEPLOYMENT_NAME'' ''gpt-4o'' \<rparr>"

section \<open>The agent registry (managers.py, class AgentManager)\<close>

text \<open>
  The registry is the dictionary \<open>self.agents\<close>, from agent id to profile; a profile
  is itself a dictionary. \<open>project_client\<close> records whether the Azure AI Project client
  exists (it is \<open>None\<close> otherwise).
\<close>

record agent_manager =
  agents :: "string \<rightharpoonup> pydict"
  use_azure_ai_agents :: bool
  project_client :: bool

definition newline :: string where
  "newline = [CHR 0x0A]"

definition dquote :: string where
  "dquote = [CHR 0x22]"

definition BASE_INSTRUCTIONS :: string where
  "BASE_INSTRUCTIONS =
     newline @ newline @
     ''CRITICAL INTERACTION GUIDELINES:'' @ newline @
     ''- Keep responses SHORT and conversational (2-3 sentences max, as if speaking on phone)'' @ newline @
     ''- ALWAYS stay in character - never break role or acknowledge you're an AI'' @ newline @
     ''- Simulate natural human speech patterns with pauses, '' @ dquote @ ''um'' @ dquote @
       '', '' @ dquote @ ''well'' @ dquote @ '', occasional hesitation'' @ newline @
     ''- Respond as a real person would in this business context'' @ newline @
     ''- Use natural phone conversation style - direct, clear, but personable'' @ newline @
     ''- Show genuine human emotions and reactions appropriate to the situation'' @ newline @
     ''- Ask follow-up questions to keep the conversation flowing naturally'' @ newline @
     ''- Avoid overly formal or robotic language - speak like a real business professional would'' @ newline @
     ''    ''"

text \<open>
  \<open>_initialize_project_client\<close>: no client without the SDK or without a configured
  endpoint; \<open>ctor_ok\<close> says whether the client's constructor returns (it raises
  otherwise, and the exception is caught).
\<close>

definition initialize_project_client :: "config \<Rightarrow> bool \<Rightarrow> bool \<Rightarrow> bool" where
  "initialize_project_client cfg sdk_available ctor_ok =
     (if \<not> sdk_available then False
      else if project_endpoint cfg = [] then False
      else ctor_ok)"

text \<open>\<open>AgentManager.__init__\<close>; \<open>sdk_available\<close> is \<open>AZURE_AI_AGENTS_AVAILABLE\<close>.\<close>

definition agent_manager_init :: "config \<Rightarrow> bool \<Rightarrow> bool \<Rightarrow> agent_manager" where
  "agent_manager_init cfg sdk_available ctor_ok =
     (let use = (use_azure_ai_agents_cfg cfg \<and> sdk_available)
      in \<lparr> agents = Map.empty,
           use_azure_ai_agents = use,
           project_client = (if use then initialize_project_client cfg sdk_available ctor_ok
                             else False) \<rparr>)"

text \<open>
  \<open>_create_azure_agent\<close>. \<open>azure_create\<close> is what the Azure service answers to
  \<open>project_client.agents.create_agent\<close>: an exception, which is raised again, or the
  id of the new agent. \<open>now\<close> is \<open>datetime.now()\<close>.
\<close>

definition create_azure_agent ::
  "(exn + string) \<Rightarrow> nat \<Rightarrow> string \<Rightarrow> pyval \<Rightarrow> pyval \<Rightarrow> pyval \<Rightarrow> pyval \<Rightarrow> agent_manager
     \<Rightarrow> exn + (string \<times> agent_manager)" where
  "create_azure_agent azure_create now scenario_id instructions model temperature max_tokens m =
     (case azure_create of
        Inl e \<Rightarrow> Inl e
      | Inr agent_id \<Rightarrow>
          Inr (agent_id,
               m\<lparr>agents := (agents m)(agent_id \<mapsto>
                  [(''scenario_id'', PStr scenario_id),
                   (''azure_agent_id'', PStr agent_id),
                   (''is_azure_agent'', PBool True),
                   (''instructions'', instructions),
                   (''created_at'', PDatetime now),
                   (''model'', model),
                   (''temperature'', temperature),
                   (''max_tokens'', max_tokens)])\<rparr>))"

text \<open>\<open>_create_local_agent\<close>. \<open>uuid_hex\<close> is \<open>uuid.uuid4().hex\<close>.\<close>

definition create_local_agent ::
  "string \<Rightarrow> nat \<Rightarrow> string \<Rightarrow> pyval \<Rightarrow> pyval \<Rightarrow> pyval \<Rightarrow> pyval \<Rightarrow> agent_manager
     \<Rightarrow> exn + (string \<times> agent_manager)" where
  "create_local_agent uuid_hex now scenario_id instructions model temperature max_tokens m =
     (let agent_id = ''local-agent-'' @ scenario_id @ ''-'' @ take 8 uuid_hex
      in Inr (agent_id,
              m\<lparr>agents := (agents m)(agent_id \<mapsto>
                 [(''scenario_id'', PStr scenario_id),
                  (''is_azure_agent'', PBool False),
                  (''instructions'', instructions),
                  (''created_at'', PDatetime now),
                  (''model'', model),
                  (''temperature'', temperature),
                  (''max_tokens'', max_tokens)])\<rparr>))"

text \<open>\<open>a + b\<close> with a string on the right: only a string on the left concatenates.\<close>

definition py_add_str :: "pyval \<Rightarrow> string \<Rightarrow> exn + pyval" where
  "py_add_str x s = (case x of PStr t \<Rightarrow> Inr (PStr (t @ s)) | _ \<Rightarrow> Inl TypeError)"

text \<open>
  \<open>create_agent\<close>. Every step that can raise on malformed scenario data is a branch:
  the exception leaves the function and the registry is unchanged.
\<close>

definition create_agent ::
  "config \<Rightarrow> (exn + string) \<Rightarrow> string \<Rightarrow> nat \<Rightarrow> string \<Rightarrow> pydict \<Rightarrow> agent_manager
     \<Rightarrow> exn + (string \<times> agent_manager)" where
  "create_agent cfg azure_create uuid_hex now scenario_id scenario_data m =
     (case py_first (dict_get scenario_data ''messages'' (PList [PDict []])) of
        Inl e \<Rightarrow> Inl e
      | Inr first_message \<Rightarrow>
     (case py_get first_message ''content'' (PStr []) of
        Inl e \<Rightarrow> Inl e
      | Inr scenario_instructions \<Rightarrow>
     (case py_add_str scenario_instructions BASE_INSTRUCTIONS of
        Inl e \<Rightarrow> Inl e
      | Inr combined_instructions \<Rightarrow>
     (let model_name = dict_get scenario_data ''model'' (PStr (model_deployment_name cfg))
      in
     (case py_get (dict_get scenario_data ''modelParameters'' (PDict [])) ''temperature''
             (PFloat (7 / 10)) of
        Inl e \<Rightarrow> Inl e
      | Inr temperature \<Rightarrow>
     (case py_get (dict_get scenario_data ''modelParameters'' (PDict [])) ''max_tokens''
             (PInt 2000) of
        Inl e \<Rightarrow> Inl e
      | Inr max_tokens \<Rightarrow>
          if use_azure_ai_agents m \<and> project_client m
          then create_azure_agent azure_create now scenario_id combined_instructions
                 model_name temperature max_tokens m
          else create_local_agent uuid_hex now scenario_id combined_instructions
                 model_name temperature max_tokens m))))))"

text \<open>
  \<open>get_agent\<close>: \<open>self.agents.get(agent_id)\<close>. The caller passes whatever the client
  sent as agent id: a list or a dictionary is unhashable and raises \<open>TypeError\<close>; a
  number, a boolean or \<open>None\<close> equals no string key.
\<close>

definition get_agent :: "agent_manager \<Rightarrow> pyval \<Rightarrow> exn + pydict option" where
  "get_agent m agent_id =
     (case agent_id of
        PStr s \<Rightarrow> Inr (agents m s)
      | PList xs \<Rightarrow> Inl TypeError
      | PDict d \<Rightarrow> Inl TypeError
      | _ \<Rightarrow> Inr None)"

text \<open>
  \<open>delete_agent\<close>: the deletion on the Azure side is an external call whose failure
  is logged and ignored; the entry leaves the local registry either way.
\<close>

definition delete_agent :: "string \<Rightarrow> agent_manager \<Rightarrow> agent_manager" where
  "delete_agent agent_id m =
     (if agent_id \<in> dom (agents m) then m\<lparr>agents := (agents m)(agent_id := None)\<rparr> else m)"

text \<open>
  The registries the program can reach: the one \<open>__init__\<close> builds, changed only by
  \<open>create_agent\<close> and \<open>delete_agent\<close> (the two routes of app.py that touch it).
\<close>

inductive reachable :: "config \<Rightarrow> agent_manager \<Rightarrow> bool" for cfg :: config where
  init: "reachable cfg (agent_manager_init cfg sdk_available ctor_ok)"
| created: "reachable cfg m \<Longrightarrow>
     create_agent cfg azure_create uuid_hex now scenario_id scenario_data m = Inr (aid, m')
     \<Longrightarrow> reachable cfg m'"
| deleted: "reachable cfg m \<Longrightarrow> reachable cfg (delete_agent aid m)"

section \<open>Sockets\<close>

text \<open>
  A frame is text or binary. What the proxy writes to a socket is either a frame it
  received, passed on as it is (\<open>Raw\<close>), or the text \<open>json.dumps\<close> makes of a
  dictionary the proxy built (\<open>JsonDumps\<close>).
\<close>

datatype frame = Text string | Binary string

datatype out_frame = Raw frame | JsonDumps pyval

text \<open>
  One call of \<open>client_ws.receive()\<close> returns a frame, returns \<open>None\<close>, or raises.
\<close>

datatype recv = Recv frame | RecvNone | RecvRaise exn

datatype task_state = NotCreated | Running | Finished | Cancelled

text \<open>
  The world of one session. \<open>client_in\<close> is the script of the results of the
  successive \<open>receive()\<close> calls on the client socket; once it is used up the client
  has gone and \<open>receive()\<close> raises. \<open>client_budget\<close> is the number of writes the
  client socket still accepts before \<open>send\<close> raises (no bound when \<open>None\<close>).
  \<open>connect_attempts\<close> lists the calls of \<open>websockets.connect\<close> with URL and headers.
  The upstream socket exists once \<open>azure_opened\<close> is positive: \<open>azure_in\<close> are the
  frames it will deliver before its stream ends, \<open>azure_out\<close> what was written to it,
  \<open>azure_budget\<close> the writes it still accepts, \<open>azure_closed\<close> the number of
  \<open>close()\<close> calls on it. The last two fields are the states of the two forwarding
  tasks of the relay.
\<close>

record world =
  client_in :: "recv list"
  client_out :: "out_frame list"
  client_budget :: "nat option"
  connect_attempts :: "(string \<times> (string \<times> string) list) list"
  azure_opened :: nat
  azure_in :: "frame list"
  azure_out :: "out_frame list"
  azure_budget :: "nat option"
  azure_closed :: nat
  c2a_task :: task_state
  a2c_task :: task_state

text \<open>
  What a session depends on and does not change: the configuration, the registry, the
  JSON parser, \<open>str()\<close> of non-string values, the value of \<open>uuid.uuid4()\<close>, what
  the network answers to \<open>websockets.connect\<close> (an exception, or an upstream socket
  with the frames it will deliver and the number of writes it accepts), and the order
  in which the event loop runs the relay's tasks.
\<close>

datatype turn = ClientToAzure | AzureToClient | Waiter

record deps =
  cfg :: config
  manager :: agent_manager
  json_loads :: "frame \<Rightarrow> exn + pyval"
  fmt :: "pyval \<Rightarrow> string"
  request_id :: string
  net :: "exn + (frame list \<times> nat option)"
  sched :: "turn list"

definition spend :: "nat option \<Rightarrow> exn + nat option" where
  "spend budget =
     (case budget of
        None \<Rightarrow> Inr None
      | Some 0 \<Rightarrow> Inl ConnectionClosed
      | Some (Suc n) \<Rightarrow> Inr (Some n))"

definition client_receive :: "world \<Rightarrow> (exn + frame option) \<times> world" where
  "client_receive w =
     (case client_in w of
        [] \<Rightarrow> (Inl ConnectionClosed, w)
      | Recv f # rest \<Rightarrow> (Inr (Some f), w\<lparr>client_in := rest\<rparr>)
      | RecvNone # rest \<Rightarrow> (Inr None, w\<lparr>client_in := rest\<rparr>)
      | RecvRaise e # rest \<Rightarrow> (Inl e, w\<lparr>client_in := rest\<rparr>))"

definition client_send :: "out_frame \<Rightarrow> world \<Rightarrow> exn + world" where
  "client_send x w =
     (case spend (client_budget w) of
        Inl e \<Rightarrow> Inl e
      | Inr b \<Rightarrow> Inr (w\<lparr>client_out := client_out w @ [x], client_budget := b\<rparr>))"

definition azure_send :: "out_frame \<Rightarrow> world \<Rightarrow> exn + world" where
  "azure_send x w =
     (case spend (azure_budget w) of
        Inl e \<Rightarrow> Inl e
      | Inr b \<Rightarrow> Inr (w\<lparr>azure_out := azure_out w @ [x], azure_budget := b\<rparr>))"

definition azure_close :: "world \<Rightarrow> world" where
  "azure_close w = w\<lparr>azure_closed := Suc (azure_closed w)\<rparr>"

text \<open>
  \<open>websockets.connect(url, extra_headers=headers)\<close>: the attempt is recorded, then
  the network decides.
\<close>

definition websockets_connect ::
  "deps \<Rightarrow> string \<Rightarrow> (string \<times> string) list \<Rightarrow> world \<Rightarrow> exn option \<times> world" where
  "websockets_connect E url headers w =
     (let w' = w\<lparr>connect_attempts := connect_attempts w @ [(url, headers)]\<rparr>
      in case net E of
           Inl e \<Rightarrow> (Some e, w')
         | Inr (frames, budget) \<Rightarrow>
             (None, w'\<lparr>azure_opened := Suc (azure_opened w'), azure_in := frames,
                       azure_out := [], azure_budget := budget, azure_closed := 0\<rparr>))"

section \<open>The voice proxy (websocket_handler.py, class VoiceProxyHandler)\<close>

text \<open>
  \<open>json.dumps(x)\<close> raises \<open>TypeError\<close> on a value it cannot serialise. Of the
  values here that is a \<open>datetime\<close> (a timestamp in the scenario data, for
  instance), at any depth; the keys of every dictionary are strings.
\<close>

fun serialisable :: "pyval \<Rightarrow> bool" where
  "serialisable (PDatetime t) = False"
| "serialisable (PList xs) = list_all serialisable xs"
| "serialisable (PDict kvs) = list_all (\<lambda>kv. serialisable (snd kv)) kvs"
| "serialisable x = True"

definition json_dumps :: "pyval \<Rightarrow> exn + out_frame" where
  "json_dumps x = (if serialisable x then Inr (JsonDumps x) else Inl TypeError)"

text \<open>
  \<open>_send_message\<close> to the client: an exception of \<open>json.dumps\<close> or of the write
  is swallowed.
\<close>

definition send_message :: "pyval \<Rightarrow> world \<Rightarrow> world" where
  "send_message message w =
     (case json_dumps message of
        Inl e \<Rightarrow> w
      | Inr text \<Rightarrow> (case client_send text w of Inl e \<Rightarrow> w | Inr w' \<Rightarrow> w'))"

definition error_frame :: "string \<Rightarrow> pyval" where
  "error_frame error_message =
     PDict [(''type'', PStr ''error''),
            (''error'', PDict [(''message'', PStr error_message)])]"

text \<open>
  \<open>_send_error\<close>: the body of the source holds the call of \<open>_send_message\<close> twice
  (the docstring and the call are repeated after the first call).
\<close>

definition send_error :: "string \<Rightarrow> world \<Rightarrow> world" where
  "send_error error_message w =
     send_message (error_frame error_message) (send_message (error_frame error_message) w)"

text \<open>
  \<open>if first_message:\<close> is false for \<open>None\<close>, for the empty string and for empty
  bytes.
\<close>

definition frame_truthy :: "frame \<Rightarrow> bool" where
  "frame_truthy f = (case f of Text s \<Rightarrow> s \<noteq> [] | Binary b \<Rightarrow> b \<noteq> [])"

text \<open>
  \<open>_get_agent_id_from_client\<close>: every exception inside the \<open>try\<close> ends in
  \<open>return None\<close>.
\<close>

definition get_agent_id_from_client :: "deps \<Rightarrow> world \<Rightarrow> pyval \<times> world" where
  "get_agent_id_from_client E w =
     (case client_receive w of
        (Inl e, w') \<Rightarrow> (PNone, w')
      | (Inr None, w') \<Rightarrow> (PNone, w')
      | (Inr (Some first_message), w') \<Rightarrow>
          if frame_truthy first_message then
            (case json_loads E first_message of
               Inl e \<Rightarrow> (PNone, w')
             | Inr msg \<Rightarrow>
                 (case py_get msg ''type'' PNone of
                    Inl e \<Rightarrow> (PNone, w')
                  | Inr t \<Rightarrow>
                      if t = PStr ''session.update'' then
                        (case py_get msg ''session'' (PDict []) of
                           Inl e \<Rightarrow> (PNone, w')
                         | Inr session \<Rightarrow>
                             (case py_get session ''agent_id'' PNone of
                                Inl e \<Rightarrow> (PNone, w')
                              | Inr agent_id \<Rightarrow> (agent_id, w')))
                      else (PNone, w')))
          else (PNone, w'))"

definition base_url :: "deps \<Rightarrow> string" where
  "base_url E =
     ''wss://'' @ azure_ai_resource_name (cfg E) @ ''.cognitiveservices.azure.com/'' @
     ''voice-agent/realtime?api-version=2025-05-01-preview'' @
     ''&x-ms-client-request-id='' @ request_id E @
     ''&agent-project-name='' @ azure_ai_project_name (cfg E)"

text \<open>
  \<open>_build_azure_url\<close>. \<open>if agent_config:\<close> holds for a profile that is neither
  \<open>None\<close> nor the empty dictionary; the \<open>elif\<close> and \<open>else\<close> branches are
  \<open>default_route\<close>.
\<close>

definition build_azure_url :: "deps \<Rightarrow> pyval \<Rightarrow> pydict option \<Rightarrow> string" where
  "build_azure_url E agent_id agent_config =
     (let default_route =
            (if agent_id_cfg (cfg E) \<noteq> []
             then base_url E @ ''&agent-id='' @ agent_id_cfg (cfg E)
             else base_url E @ ''&model='' @ model_deployment_name (cfg E))
      in case agent_config of
           None \<Rightarrow> default_route
         | Some d \<Rightarrow>
             if d = [] then default_route
             else if truthy (dict_get d ''is_azure_agent'' PNone)
             then base_url E @ ''&agent-id='' @ py_format (fmt E) agent_id
             else base_url E @ ''&model='' @
                  py_format (fmt E)
                    (dict_get d ''model'' (PStr (model_deployment_name (cfg E)))))"

definition default_session :: pydict where
  "default_session =
     [(''modalities'', PList [PStr ''text'', PStr ''audio'']),
      (''turn_detection'', PDict [(''type'', PStr ''azure_semantic_vad'')]),
      (''input_audio_noise_reduction'', PDict [(''type'', PStr ''azure_deep_noise_suppression'')]),
      (''input_audio_echo_cancellation'', PDict [(''type'', PStr ''server_echo_cancellation'')]),
      (''avatar'', PDict [(''character'', PStr ''lisa''), (''style'', PStr ''casual-sitting'')])]"

text \<open>
  The dictionary \<open>_send_initial_config\<close> builds before it sends it: the defaults,
  and for a profile that is not empty and whose \<open>is_azure_agent\<close> is false the four
  entries taken from the profile. \<open>agent_config["instructions"]\<close> and the two
  accesses after it raise \<open>KeyError\<close> on a missing key.
\<close>

definition initial_config_message :: "config \<Rightarrow> pydict option \<Rightarrow> exn + pyval" where
  "initial_config_message c agent_config =
     (let defaults = PDict [(''type'', PStr ''session.update''),
                            (''session'', PDict default_session)]
      in case agent_config of
           None \<Rightarrow> Inr defaults
         | Some d \<Rightarrow>
             if d \<noteq> [] \<and> \<not> truthy (dict_get d ''is_azure_agent'' PNone) then
               (let s1 = dict_set default_session ''model''
                           (dict_get d ''model'' (PStr (model_deployment_name c)))
                in case dict_index d ''instructions'' of
                     Inl e \<Rightarrow> Inl e
                   | Inr instructions \<Rightarrow>
                (let s2 = dict_set s1 ''instructions'' instructions
                 in case dict_index d ''temperature'' of
                      Inl e \<Rightarrow> Inl e
                    | Inr temperature \<Rightarrow>
                (let s3 = dict_set s2 ''temperature'' temperature
                 in case dict_index d ''max_tokens'' of
                      Inl e \<Rightarrow> Inl e
                    | Inr max_tokens \<Rightarrow>
                        Inr (PDict [(''type'', PStr ''session.update''),
                                    (''session'',
                                     PDict (dict_set s3 ''max_response_output_tokens''
                                              max_tokens))]))))
             else Inr defaults)"

text \<open>
  \<open>_send_initial_config\<close>: build the dictionary, serialise it, then one write to
  upstream. An exception of any of the three steps leaves the function.
\<close>

definition send_initial_config :: "deps \<Rightarrow> pydict option \<Rightarrow> world \<Rightarrow> exn + world" where
  "send_initial_config E agent_config w =
     (case initial_config_message (cfg E) agent_config of
        Inl e \<Rightarrow> Inl e
      | Inr config_message \<Rightarrow>
          (case json_dumps config_message of
             Inl e \<Rightarrow> Inl e
           | Inr text \<Rightarrow> azure_send text w))"

text \<open>
  \<open>_connect_to_azure\<close>. The result says whether a socket is returned (\<open>True\<close>) or
  \<open>None\<close> (\<open>False\<close>); every exception inside the \<open>try\<close> ends in \<open>return None\<close>,
  also one raised after the socket was opened.
\<close>

definition connect_to_azure :: "deps \<Rightarrow> pyval \<Rightarrow> world \<Rightarrow> bool \<times> world" where
  "connect_to_azure E agent_id w =
     (case (if truthy agent_id then get_agent (manager E) agent_id else Inr None) of
        Inl e \<Rightarrow> (False, w)
      | Inr agent_config \<Rightarrow>
          (let azure_url = build_azure_url E agent_id agent_config;
               api_key = azure_openai_api_key (cfg E)
           in if api_key = [] then (False, w)
              else
                (case websockets_connect E azure_url [(''api-key'', api_key)] w of
                   (Some e, w1) \<Rightarrow> (False, w1)
                 | (None, w1) \<Rightarrow>
                     (case send_initial_config E agent_config w1 of
                        Inl e \<Rightarrow> (False, w1)
                      | Inr w2 \<Rightarrow> (True, w2)))))"

text \<open>
  One pass through the body of \<open>while True\<close> in \<open>_forward_client_to_azure\<close>; the
  result says whether the loop goes on. \<open>None\<close> breaks the loop, an exception of
  \<open>receive\<close> or of \<open>send\<close> leaves it through the \<open>except\<close> clause.
\<close>

definition c2a_iteration :: "world \<Rightarrow> bool \<times> world" where
  "c2a_iteration w =
     (case client_receive w of
        (Inl e, w') \<Rightarrow> (False, w')
      | (Inr None, w') \<Rightarrow> (False, w')
      | (Inr (Some message), w') \<Rightarrow>
          (case azure_send (Raw message) w' of
             Inl e \<Rightarrow> (False, w')
           | Inr w'' \<Rightarrow> (True, w'')))"

text \<open>
  One pass through \<open>async for message in azure_ws\<close> in \<open>_forward_azure_to_client\<close>:
  the iteration ends when the upstream stream ends, and a failing write to the client
  leaves the loop through the \<open>except\<close> clause.
\<close>

definition a2c_iteration :: "world \<Rightarrow> bool \<times> world" where
  "a2c_iteration w =
     (case azure_in w of
        [] \<Rightarrow> (False, w)
      | message # rest \<Rightarrow>
          (let w' = w\<lparr>azure_in := rest\<rparr>
           in case client_send (Raw message) w' of
                Inl e \<Rightarrow> (False, w')
              | Inr w'' \<Rightarrow> (True, w'')))"

text \<open>\<open>_forward_client_to_azure\<close> run on its own until its loop ends.\<close>

function forward_client_to_azure :: "world \<Rightarrow> world" where
  "forward_client_to_azure w =
     (case c2a_iteration w of
        (True, w') \<Rightarrow> forward_client_to_azure w'
      | (False, w') \<Rightarrow> w')"
  by pat_completeness auto
termination
  by (relation "measure (\<lambda>w. length (client_in w))")
     (auto simp: c2a_iteration_def client_receive_def azure_send_def
           split: list.splits recv.splits sum.splits)

text \<open>\<open>_forward_azure_to_client\<close> run on its own until its loop ends.\<close>

function forward_azure_to_client :: "world \<Rightarrow> world" where
  "forward_azure_to_client w =
     (case a2c_iteration w of
        (True, w') \<Rightarrow> forward_azure_to_client w'
      | (False, w') \<Rightarrow> w')"
  by pat_completeness auto
termination
  by (relation "measure (\<lambda>w. length (azure_in w))")
     (auto simp: a2c_iteration_def client_send_def Let_def split: list.splits sum.splits)

text \<open>The two loops are unfolded one pass at a time, never by the simplifier on its own.\<close>

declare forward_client_to_azure.simps [simp del]

declare forward_azure_to_client.simps [simp del]

text \<open>
  The relay runs the two loops as tasks of the event loop. A turn of a forwarding
  task is one pass through its loop; when the loop ends the task is finished.
\<close>

definition c2a_task_step :: "world \<Rightarrow> world" where
  "c2a_task_step w =
     (case c2a_iteration w of
        (True, w') \<Rightarrow> w'
      | (False, w') \<Rightarrow> w'\<lparr>c2a_task := Finished\<rparr>)"

definition a2c_task_step :: "world \<Rightarrow> world" where
  "a2c_task_step w =
     (case a2c_iteration w of
        (True, w') \<Rightarrow> w'
      | (False, w') \<Rightarrow> w'\<lparr>a2c_task := Finished\<rparr>)"

text \<open>\<open>for task in pending: task.cancel()\<close>: the tasks that are not done.\<close>

definition cancel_pending :: "world \<Rightarrow> world" where
  "cancel_pending w =
     w\<lparr>c2a_task := (if c2a_task w = Running then Cancelled else c2a_task w),
       a2c_task := (if a2c_task w = Running then Cancelled else a2c_task w)\<rparr>"

text \<open>
  \<open>asyncio.wait(tasks, return_when=FIRST_COMPLETED)\<close> followed by the
  cancellation, under a schedule: a forwarding task that is still running makes one
  pass when its turn comes; the waiter, when its turn comes, returns if a task is
  done and cancels the others, and keeps waiting otherwise. A schedule that ends
  before the waiter returns leaves the relay waiting (\<open>None\<close>).
\<close>

fun run_relay :: "turn list \<Rightarrow> world \<Rightarrow> world option" where
  "run_relay [] w = None"
| "run_relay (ClientToAzure # ts) w =
     run_relay ts (if c2a_task w = Running then c2a_task_step w else w)"
| "run_relay (AzureToClient # ts) w =
     run_relay ts (if a2c_task w = Running then a2c_task_step w else w)"
| "run_relay (Waiter # ts) w =
     (if c2a_task w = Finished \<or> a2c_task w = Finished then Some (cancel_pending w)
      else run_relay ts w)"

text \<open>\<open>_handle_message_forwarding\<close>: both tasks are created, then the wait.\<close>

definition handle_message_forwarding :: "turn list \<Rightarrow> world \<Rightarrow> world option" where
  "handle_message_forwarding ts w = run_relay ts (w\<lparr>c2a_task := Running, a2c_task := Running\<rparr>)"

text \<open>
  The states the relay passes through under a schedule: the state before each turn,
  and last the state the waiter returns with (or the state the schedule ends in).
\<close>

fun relay_trace :: "turn list \<Rightarrow> world \<Rightarrow> world list" where
  "relay_trace [] w = [w]"
| "relay_trace (ClientToAzure # ts) w =
     w # relay_trace ts (if c2a_task w = Running then c2a_task_step w else w)"
| "relay_trace (AzureToClient # ts) w =
     w # relay_trace ts (if a2c_task w = Running then a2c_task_step w else w)"
| "relay_trace (Waiter # ts) w =
     (if c2a_task w = Finished \<or> a2c_task w = Finished then [w, cancel_pending w]
      else w # relay_trace ts w)"

definition proxy_connected :: pyval where
  "proxy_connected =
     PDict [(''type'', PStr ''proxy.connected''),
            (''message'', PStr ''Connected to Azure Voice API'')]"

text \<open>
  \<open>handle_connection\<close>. The local variable \<open>azure_ws\<close> is the first component of
  the connector's result; the \<open>finally\<close> clause closes the socket only when the
  variable holds one. Each callee catches its own exceptions, so the \<open>except\<close>
  clause has no path of its own here. The result is \<open>None\<close> while the relay is still
  waiting.
\<close>

definition handle_connection :: "deps \<Rightarrow> world \<Rightarrow> world option" where
  "handle_connection E w =
     (case get_agent_id_from_client E w of
        (current_agent_id, w1) \<Rightarrow>
          (case connect_to_azure E current_agent_id w1 of
             (False, w2) \<Rightarrow> Some (send_error ''Failed to connect to Azure Voice API'' w2)
           | (True, w2) \<Rightarrow>
               (case handle_message_forwarding (sched E) (send_message proxy_connected w2) of
                  None \<Rightarrow> None
                | Some w3 \<Rightarrow> Some (azure_close w3))))"

text \<open>The world when the client has just connected.\<close>

definition initial_world :: "recv list \<Rightarrow> nat option \<Rightarrow> world" where
  "initial_world script budget =
     \<lparr> client_in = script, client_out = [], client_budget = budget,
       connect_attempts = [], azure_opened = 0, azure_in = [], azure_out = [],
       azure_budget = None, azure_closed = 0,
       c2a_task = NotCreated, a2c_task = NotCreated \<rparr>"

section \<open>Well-formed profiles and example inputs\<close>

text \<open>
  A profile is complete when it has the four entries the configuration message reads
  and a boolean \<open>is_azure_agent\<close>.
\<close>

definition profile_ok :: "pydict \<Rightarrow> bool" where
  "profile_ok d =
     ((case map_of d ''is_azure_agent'' of Some (PBool b) \<Rightarrow> True | _ \<Rightarrow> False) \<and>
      map_of d ''model'' \<noteq> None \<and> map_of d ''instructions'' \<noteq> None \<and>
      map_of d ''temperature'' \<noteq> None \<and> map_of d ''max_tokens'' \<noteq> None)"

definition demo_cfg :: config where
  "demo_cfg =
     load_config [''AZURE_AI_RESOURCE_NAME'' \<mapsto> ''res'', ''AZURE_AI_PROJECT_NAME'' \<mapsto> ''proj'',
                  ''AZURE_OPENAI_API_KEY'' \<mapsto> ''secret'']"

definition demo_scenario :: pydict where
  "demo_scenario =
     [(''name'', PStr ''Demo''),
      (''messages'', PList [PDict [(''content'', PStr ''You are a buyer.'')]]),
      (''model'', PStr ''gpt-4o-mini''),
      (''modelParameters'', PDict [(''temperature'', PFloat (1 / 2)), (''max_tokens'', PInt 500)])]"

definition demo_local_profile :: pydict where
  "demo_local_profile =
     [(''scenario_id'', PStr ''s1''),
      (''is_azure_agent'', PBool False),
      (''instructions'', PStr (''You are a buyer.'' @ BASE_INSTRUCTIONS)),
      (''created_at'', PDatetime 0),
      (''model'', PStr ''gpt-4o-mini''),
      (''temperature'', PFloat (1 / 2)),
      (''max_tokens'', PInt 500)]"

definition demo_manager :: agent_manager where
  "demo_manager =
     (agent_manager_init demo_cfg False False)
       \<lparr>agents := [''local-agent-s1-0123abcd'' \<mapsto> demo_local_profile]\<rparr>"

text \<open>
  A socket accepts \<open>n\<close> more writes; a script of \<open>receive()\<close> results starts with
  the end of the stream (\<open>None\<close>, an exception, or nothing left); the frames a
  script delivers before that end.
\<close>

definition accepts :: "nat option \<Rightarrow> nat \<Rightarrow> bool" where
  "accepts budget n = (case budget of None \<Rightarrow> True | Some k \<Rightarrow> n \<le> k)"

definition closes :: "recv list \<Rightarrow> bool" where
  "closes script = (case script of Recv f # rest \<Rightarrow> False | _ \<Rightarrow> True)"

fun leading_frames :: "recv list \<Rightarrow> frame list" where
  "leading_frames (Recv f # rest) = f # leading_frames rest"
| "leading_frames _ = []"

text \<open>Both forwarding tasks have been created and none has been cancelled.\<close>

definition started :: "world \<Rightarrow> bool" where
  "started w = ((c2a_task w = Running \<or> c2a_task w = Finished) \<and>
                (a2c_task w = Running \<or> a2c_task w = Finished))"

text \<open>
  Example sessions. The parser of the examples knows one text, the handshake that
  selects the example agent, and rejects everything else.
\<close>

definition q :: "string \<Rightarrow> string" where
  "q s = dquote @ s @ dquote"

definition handshake_text :: "string \<Rightarrow> string" where
  "handshake_text aid =
     ''{'' @ q ''type'' @ '': '' @ q ''session.update'' @ '', '' @ q ''session'' @ '': {'' @
     q ''agent_id'' @ '': '' @ q aid @ ''}}''"

definition demo_json_loads :: "frame \<Rightarrow> exn + pyval" where
  "demo_json_loads f =
     (if f = Text (handshake_text ''local-agent-s1-0123abcd'')
      then Inr (PDict [(''type'', PStr ''session.update''),
                       (''session'', PDict [(''agent_id'', PStr ''local-agent-s1-0123abcd'')])])
      else Inl JSONDecodeError)"

definition demo_deps :: deps where
  "demo_deps =
     \<lparr> cfg = demo_cfg, manager = demo_manager, json_loads = demo_json_loads,
       fmt = (\<lambda>v. ''?''), request_id = ''0f8fad5b-d9cb-469f-a165-70867728950e'',
       net = Inr ([Text ''hi''], None),
       sched = [ClientToAzure, AzureToClient, ClientToAzure, Waiter] \<rparr>"

text \<open>The same session with no credential in the environment.\<close>

definition no_key_deps :: deps where
  "no_key_deps = demo_deps\<lparr>cfg := load_config Map.empty\<rparr>"

text \<open>The same session with an upstream that accepts the connection and no write.\<close>

definition dropping_deps :: deps where
  "dropping_deps = demo_deps\<lparr>net := Inr ([], Some 0)\<rparr>"

text \<open>A relay between a client that sends two frames and an upstream that sends two.\<close>

definition relay_world :: world where
  "relay_world =
     (initial_world [Recv (Text ''a''), Recv (Binary ''b''), RecvNone] None)
       \<lparr>azure_opened := 1, azure_in := [Text ''x'', Text ''y'']\<rparr>"

definition relay_sched :: "turn list" where
  "relay_sched = [ClientToAzure, AzureToClient, ClientToAzure, ClientToAzure, ClientToAzure, Waiter]"

definition relay_world_final :: world where
  "relay_world_final =
     relay_world
       \<lparr>client_in := [], client_out := [Raw (Text ''x'')], azure_in := [Text ''y''],
        azure_out := [Raw (Text ''a''), Raw (Binary ''b'')],
        c2a_task := Finished, a2c_task := Cancelled\<rparr>"

text \<open>The configuration message that holds the defaults and nothing else.\<close>

definition defaults_message :: pyval where
  "defaults_message =
     PDict [(''type'', PStr ''session.update''), (''session'', PDict default_session)]"

text \<open>
  A session whose client sends audio from its first frame on, and the world it ends
  in under the example schedule.
\<close>

definition audio_script :: "recv list" where
  "audio_script = [Recv (Binary ''audio0''), Recv (Binary ''audio1''), RecvNone]"

definition audio_session_final :: world where
  "audio_session_final =
     \<lparr> client_in = [], client_out = [JsonDumps proxy_connected, Raw (Text ''hi'')],
       client_budget = None,
       connect_attempts =
         [(''wss://res.cognitiveservices.azure.com/voice-agent/realtime?api-version=2025-05-01-preview'' @
           ''&x-ms-client-request-id=0f8fad5b-d9cb-469f-a165-70867728950e'' @
           ''&agent-project-name=proj&model=gpt-4o'',
           [(''api-key'', ''secret'')])],
       azure_opened = 1, azure_in = [],
       azure_out = [JsonDumps defaults_message, Raw (Binary ''audio1'')],
       azure_budget = None, azure_closed = 1,
       c2a_task = Finished, a2c_task = Cancelled \<rparr>"

text \<open>
  A deployment with the Azure AI Agent Service switched on and a default agent id,
  and its registry after one agent was created on the Azure side.
\<close>

definition azure_cfg :: config where
  "azure_cfg =
     load_config [''AZURE_AI_RESOURCE_NAME'' \<mapsto> ''res'', ''AZURE_AI_PROJECT_NAME'' \<mapsto> ''proj'',
                  ''AZURE_OPENAI_API_KEY'' \<mapsto> ''secret'', ''USE_AZURE_AI_AGENTS'' \<mapsto> ''True'',
                  ''PROJECT_ENDPOINT'' \<mapsto> ''https://proj.example'', ''AGENT_ID'' \<mapsto> ''asst_default'']"

definition demo_azure_profile :: pydict where
  "demo_azure_profile =
     [(''scenario_id'', PStr ''s1''),
      (''azure_agent_id'', PStr ''asst_42''),
      (''is_azure_agent'', PBool True),
      (''instructions'', PStr (''You are a buyer.'' @ BASE_INSTRUCTIONS)),
      (''created_at'', PDatetime 0),
      (''model'', PStr ''gpt-4o-mini''),
      (''temperature'', PFloat (1 / 2)),
      (''max_tokens'', PInt 500)]"

definition azure_manager :: agent_manager where
  "azure_manager =
     (agent_manager_init azure_cfg True True)\<lparr>agents := [''asst_42'' \<mapsto> demo_azure_profile]\<rparr>"

definition azure_deps :: deps where
  "azure_deps = demo_deps\<lparr>cfg := azure_cfg, manager := azure_manager\<rparr>"

text \<open>
  A value that can be the key of a dictionary: every JSON value but an array and an
  object, which are unhashable.
\<close>

definition hashable :: "pyval \<Rightarrow> bool" where
  "hashable x = (case x of PList xs \<Rightarrow> False | PDict d \<Rightarrow> False | _ \<Rightarrow> True)"

text \<open>
  A relay whose client closes at once while the upstream still has three frames to
  deliver, under a schedule that gives the waiter its turn last.
\<close>

definition half_open_world :: world where
  "half_open_world =
     (initial_world [RecvNone] None)
       \<lparr>azure_opened := 1, azure_in := [Text ''x'', Text ''y'', Text ''z''],
        c2a_task := Running, a2c_task := Running\<rparr>"

definition half_open_sched :: "turn list" where
  "half_open_sched = [ClientToAzure, AzureToClient, AzureToClient, AzureToClient, Waiter]"

text \<open>
  The example relay under a schedule that stops before the waiter's turn, and under
  one in which the upstream stream ends first.
\<close>

definition relay_sched_waiting :: "turn list" where
  "relay_sched_waiting = [ClientToAzure, AzureToClient, ClientToAzure, ClientToAzure, ClientToAzure]"

definition relay_sched_upstream :: "turn list" where
  "relay_sched_upstream = [AzureToClient, ClientToAzure, AzureToClient, AzureToClient, Waiter]"

definition relay_world_upstream_final :: world where
  "relay_world_upstream_final =
     relay_world
       \<lparr>client_in := [Recv (Binary ''b''), RecvNone],
        client_out := [Raw (Text ''x''), Raw (Text ''y'')], azure_in := [],
        azure_out := [Raw (Text ''a'')],
        c2a_task := Cancelled, a2c_task := Finished\<rparr>"

text \<open>
  A session whose handshake names the agent by a JSON array, and a parser that knows
  that handshake.
\<close>

definition list_handshake_text :: string where
  "list_handshake_text =
     ''{'' @ q ''type'' @ '': '' @ q ''session.update'' @ '', '' @ q ''session'' @ '': {'' @
     q ''agent_id'' @ '': ['' @ q ''unknown-id'' @ '']}}''"

definition list_json_loads :: "frame \<Rightarrow> exn + pyval" where
  "list_json_loads f =
     (if f = Text list_handshake_text
      then Inr (PDict [(''type'', PStr ''session.update''),
                       (''session'', PDict [(''agent_id'', PList [PStr ''unknown-id''])])])
      else Inl JSONDecodeError)"

definition list_id_deps :: deps where
  "list_id_deps = demo_deps\<lparr>json_loads := list_json_loads\<rparr>"

text \<open>
  A scenario whose \<open>model\<close> entry is a timestamp, the profile \<open>create_agent\<close>
  stores for it, and a session on the registry that holds it.
\<close>

definition dated_scenario :: pydict where
  "dated_scenario =
     [(''name'', PStr ''Dated''),
      (''messages'', PList [PDict [(''content'', PStr ''You are a buyer.'')]]),
      (''model'', PDatetime 20240101)]"

definition dated_profile :: pydict where
  "dated_profile =
     [(''scenario_id'', PStr ''s2''),
      (''is_azure_agent'', PBool False),
      (''instructions'', PStr (''You are a buyer.'' @ BASE_INSTRUCTIONS)),
      (''created_at'', PDatetime 0),
      (''model'', PDatetime 20240101),
      (''temperature'', PFloat (7 / 10)),
      (''max_tokens'', PInt 2000)]"

definition dated_manager :: agent_manager where
  "dated_manager =
     (agent_manager_init demo_cfg False False)
       \<lparr>agents := [''local-agent-s2-89abcdef'' \<mapsto> dated_profile]\<rparr>"

definition dated_deps :: deps where
  "dated_deps = demo_deps\<lparr>manager := dated_manager\<rparr>"

section \<open>Properties of the registry\<close>

lemma create_azure_agent_ok:
  "create_azure_agent ac now sid ins mo te mt m = Inr (aid, m') \<Longrightarrow>
   \<forall>k d. agents m k = Some d \<longrightarrow> profile_ok d \<Longrightarrow>
   agents m' k = Some d \<Longrightarrow> profile_ok d"
  by (auto simp: create_azure_agent_def profile_ok_def split: sum.splits if_splits)

lemma create_local_agent_ok:
  "create_local_agent u now sid ins mo te mt m = Inr (aid, m') \<Longrightarrow>
   \<forall>k d. agents m k = Some d \<longrightarrow> profile_ok d \<Longrightarrow>
   agents m' k = Some d \<Longrightarrow> profile_ok d"
  by (auto simp: create_local_agent_def profile_ok_def Let_def split: sum.splits if_splits)

lemma create_agent_ok:
  "create_agent c ac u now sid sd m = Inr (aid, m') \<Longrightarrow>
   \<forall>k d. agents m k = Some d \<longrightarrow> profile_ok d \<Longrightarrow>
   agents m' k = Some d \<Longrightarrow> profile_ok d"
  unfolding create_agent_def
  by (auto split: sum.splits if_splits simp: Let_def
           dest: create_azure_agent_ok create_local_agent_ok)

lemma reachable_profile_ok:
  "reachable c m \<Longrightarrow> agents m k = Some d \<Longrightarrow> profile_ok d"
proof (induction arbitrary: k d rule: reachable.induct)
  case (init sdk_available ctor_ok)
  then show ?case by (simp add: agent_manager_init_def Let_def)
next
  case (created m azure_create uuid_hex now scenario_id scenario_data aid m')
  then show ?case using create_agent_ok by blast
next
  case (deleted m aid)
  then show ?case by (auto simp: delete_agent_def split: if_splits)
qed

lemma profile_ok_nonempty: "profile_ok d \<Longrightarrow> d \<noteq> []"
  by (auto simp: profile_ok_def)

lemma profile_ok_fields:
  "profile_ok d \<Longrightarrow>
   \<exists>b M I T K. map_of d ''is_azure_agent'' = Some (PBool b) \<and> map_of d ''model'' = Some M \<and>
     map_of d ''instructions'' = Some I \<and> map_of d ''temperature'' = Some T \<and>
     map_of d ''max_tokens'' = Some K"
  by (auto simp: profile_ok_def split: option.splits pyval.splits)

lemma initial_config_none:
  "initial_config_message c None =
     Inr (PDict [(''type'', PStr ''session.update''), (''session'', PDict default_session)])"
  by (simp add: initial_config_message_def)

lemma initial_config_remote:
  "map_of d ''is_azure_agent'' = Some (PBool True) \<Longrightarrow>
   initial_config_message c (Some d) =
     Inr (PDict [(''type'', PStr ''session.update''), (''session'', PDict default_session)])"
  by (simp add: initial_config_message_def dict_get_def)

lemma initial_config_local:
  "map_of d ''is_azure_agent'' = Some (PBool False) \<Longrightarrow> map_of d ''model'' = Some M \<Longrightarrow>
   map_of d ''instructions'' = Some I \<Longrightarrow> map_of d ''temperature'' = Some T \<Longrightarrow>
   map_of d ''max_tokens'' = Some K \<Longrightarrow>
   initial_config_message c (Some d) =
     Inr (PDict [(''type'', PStr ''session.update''),
                 (''session'', PDict (default_session @
                    [(''model'', M), (''instructions'', I), (''temperature'', T),
                     (''max_response_output_tokens'', K)]))])"
  by (auto simp: initial_config_message_def dict_get_def dict_index_def default_session_def)

lemma demo_create:
  "create_agent demo_cfg (Inl AzureServiceError) ''0123abcd4567'' 0 ''s1'' demo_scenario
     (agent_manager_init demo_cfg False False) = Inr (''local-agent-s1-0123abcd'', demo_manager)"
  by (simp add: create_agent_def demo_scenario_def dict_get_def py_first_def py_get_def
        py_add_str_def agent_manager_init_def create_local_agent_def demo_manager_def
        demo_local_profile_def Let_def)

lemma demo_reachable: "reachable demo_cfg demo_manager"
  by (rule reachable.created [OF reachable.init demo_create])

text \<open>
  C10. Every profile in a registry built by \<open>create_agent\<close> (through
  \<open>_create_azure_agent\<close> or \<open>_create_local_agent\<close>) and \<open>delete_agent\<close> has the
  entries \<open>model\<close>, \<open>instructions\<close>, \<open>temperature\<close> and \<open>max_tokens\<close> and a
  boolean \<open>is_azure_agent\<close>; so building the initial configuration message from such
  a profile returns a message and raises no \<open>KeyError\<close>.
\<close>

theorem registry_profiles_complete:
  assumes "reachable c m" and "agents m aid = Some d"
  shows "(\<exists>b M I T K. map_of d ''is_azure_agent'' = Some (PBool b) \<and>
            map_of d ''model'' = Some M \<and> map_of d ''instructions'' = Some I \<and>
            map_of d ''temperature'' = Some T \<and> map_of d ''max_tokens'' = Some K) \<and>
         (\<exists>message. initial_config_message c' (Some d) = Inr message)"
proof -
  from assms have ok: "profile_ok d" by (rule reachable_profile_ok)
  then obtain b M I T K where f: "map_of d ''is_azure_agent'' = Some (PBool b)"
    "map_of d ''model'' = Some M" "map_of d ''instructions'' = Some I"
    "map_of d ''temperature'' = Some T" "map_of d ''max_tokens'' = Some K"
    using profile_ok_fields by blast
  have "\<exists>message. initial_config_message c' (Some d) = Inr message"
  proof (cases b)
    case True
    with f show ?thesis by (simp add: initial_config_remote)
  next
    case False
    with f show ?thesis by (simp add: initial_config_local)
  qed
  with f show ?thesis by blast
qed

theorem registry_profiles_complete_witness:
  "(\<exists>b M I T K. map_of demo_local_profile ''is_azure_agent'' = Some (PBool b) \<and>
            map_of demo_local_profile ''model'' = Some M \<and>
            map_of demo_local_profile ''instructions'' = Some I \<and>
            map_of demo_local_profile ''temperature'' = Some T \<and>
            map_of demo_local_profile ''max_tokens'' = Some K) \<and>
   (\<exists>message. initial_config_message demo_cfg (Some demo_local_profile) = Inr message)"
proof -
  have a: "agents demo_manager ''local-agent-s1-0123abcd'' = Some demo_local_profile"
    by (simp add: demo_manager_def)
  show ?thesis by (rule registry_profiles_complete [OF demo_reachable a])
qed

section \<open>Properties of the connector and the session procedure\<close>

lemma json_dumps_error_frame:
  "json_dumps (error_frame m) = Inr (JsonDumps (error_frame m))"
  by (simp add: json_dumps_def error_frame_def)

lemma json_dumps_proxy_connected: "json_dumps proxy_connected = Inr (JsonDumps proxy_connected)"
  by (simp add: json_dumps_def proxy_connected_def)

lemma json_dumps_defaults:
  "json_dumps (PDict [(''type'', PStr ''session.update''), (''session'', PDict default_session)]) =
     Inr (JsonDumps (PDict [(''type'', PStr ''session.update''),
                            (''session'', PDict default_session)]))"
  by (simp add: json_dumps_def default_session_def)

lemma no_key_connect:
  "azure_openai_api_key (cfg E) = [] \<Longrightarrow> connect_to_azure E agent_id w = (False, w)"
  by (simp add: connect_to_azure_def Let_def split: sum.splits)

text \<open>
  C1. With no credential the connector yields no socket and the session ends without
  a relay, but the client is sent the error frame twice, not once: \<open>_send_error\<close>
  calls \<open>_send_message\<close> two times. The session below has no credential in its
  environment and a client that accepts every write.
\<close>

theorem missing_credential_two_error_frames:
  "handle_connection no_key_deps (initial_world [Recv (Text ''hello'')] None) =
     Some ((initial_world [] None)
             \<lparr>client_out := [JsonDumps (error_frame ''Failed to connect to Azure Voice API''),
                             JsonDumps (error_frame ''Failed to connect to Azure Voice API'')]\<rparr>)"
  by (simp add: handle_connection_def no_key_deps_def demo_deps_def get_agent_id_from_client_def
        client_receive_def initial_world_def frame_truthy_def demo_json_loads_def
        handshake_text_def q_def dquote_def no_key_connect load_config_def getenv_def
        send_error_def send_message_def json_dumps_error_frame client_send_def spend_def)

text \<open>
  C3. When the upstream accepts the connection and the write of the initial
  configuration message fails, \<open>_connect_to_azure\<close> returns \<open>None\<close>, the session
  procedure holds no socket to close, and it returns with the upstream socket opened
  once and closed zero times.
\<close>

theorem config_send_failure_leaks_upstream:
  "map_option (\<lambda>w. (azure_opened w, azure_closed w))
     (handle_connection dropping_deps (initial_world [Recv (Text ''hello'')] None)) = Some (1, 0)"
  by (simp add: handle_connection_def dropping_deps_def demo_deps_def get_agent_id_from_client_def
        client_receive_def initial_world_def frame_truthy_def demo_json_loads_def
        handshake_text_def q_def dquote_def load_config_def getenv_def
        connect_to_azure_def websockets_connect_def send_initial_config_def
        initial_config_message_def json_dumps_defaults azure_send_def demo_cfg_def
        send_error_def send_message_def json_dumps_error_frame client_send_def spend_def Let_def)

text \<open>
  C8. When \<open>AZURE_OPENAI_API_KEY\<close> is unset or empty in the environment the
  configuration is loaded from, the connector returns no socket and leaves the world
  as it was, for every agent id and every registry: no call of
  \<open>websockets.connect\<close> is made and no socket is opened.
\<close>

theorem missing_credential_no_connection:
  assumes "env ''AZURE_OPENAI_API_KEY'' = None \<or> env ''AZURE_OPENAI_API_KEY'' = Some []"
    and "cfg E = load_config env"
  shows "connect_to_azure E agent_id w = (False, w) \<and>
         connect_attempts (snd (connect_to_azure E agent_id w)) = connect_attempts w \<and>
         azure_opened (snd (connect_to_azure E agent_id w)) = azure_opened w"
  using assms by (auto simp: no_key_connect load_config_def getenv_def)

theorem missing_credential_no_connection_witness:
  "connect_to_azure no_key_deps (PStr ''local-agent-s1-0123abcd'') (initial_world [] None) =
     (False, initial_world [] None) \<and>
   connect_attempts (snd (connect_to_azure no_key_deps (PStr ''local-agent-s1-0123abcd'')
     (initial_world [] None))) = []"
proof -
  have h1: "Map.empty ''AZURE_OPENAI_API_KEY'' = None \<or> Map.empty ''AZURE_OPENAI_API_KEY'' = Some []"
    by simp
  have h2: "cfg no_key_deps = load_config Map.empty"
    by (simp add: no_key_deps_def)
  from missing_credential_no_connection [OF h1 h2]
  show ?thesis by (simp add: initial_world_def)
qed

section \<open>Properties of the relay\<close>

lemma c2a_iteration_cases:
  assumes "c2a_iteration w = (b, w')"
  shows "c2a_task w' = c2a_task w \<and> a2c_task w' = a2c_task w \<and> azure_in w' = azure_in w \<and>
         client_out w' = client_out w \<and>
         (if b then \<exists>f. client_in w = Recv f # client_in w' \<and> azure_out w' = azure_out w @ [Raw f]
          else azure_out w' = azure_out w \<and> length (client_in w') \<le> length (client_in w))"
  using assms
  by (auto simp: c2a_iteration_def client_receive_def azure_send_def
           split: list.splits recv.splits sum.splits)

lemma a2c_iteration_cases:
  assumes "a2c_iteration w = (b, w')"
  shows "c2a_task w' = c2a_task w \<and> a2c_task w' = a2c_task w \<and> client_in w' = client_in w \<and>
         azure_out w' = azure_out w \<and>
         (if b then \<exists>f. azure_in w = f # azure_in w' \<and> client_out w' = client_out w @ [Raw f]
          else client_out w' = client_out w \<and> length (azure_in w') \<le> length (azure_in w))"
  using assms
  by (auto simp: a2c_iteration_def client_send_def Let_def split: list.splits sum.splits)

lemma spend_accepts:
  assumes "accepts budget (Suc n)"
  shows "\<exists>b. spend budget = Inr b \<and> accepts b n"
proof (cases budget)
  case None
  then show ?thesis by (simp add: spend_def accepts_def)
next
  case (Some k)
  with assms obtain j where "k = Suc j" "n \<le> j"
    by (cases k) (auto simp: accepts_def)
  with Some show ?thesis by (simp add: spend_def accepts_def)
qed

lemma forward_client_to_azure_all:
  "accepts (azure_budget w) (length msgs) \<Longrightarrow> client_in w = map Recv msgs @ rest \<Longrightarrow>
   closes rest \<Longrightarrow> azure_out (forward_client_to_azure w) = azure_out w @ map Raw msgs"
proof (induction msgs arbitrary: w)
  case Nil
  then show ?case
    by (subst forward_client_to_azure.simps)
       (auto simp: c2a_iteration_def client_receive_def closes_def
             split: list.splits recv.splits)
next
  case (Cons f msgs)
  obtain b where b: "spend (azure_budget w) = Inr b" "accepts b (length msgs)"
    using Cons.prems(1) spend_accepts [of _ "length msgs"] by auto
  let ?w1 = "w\<lparr>client_in := map Recv msgs @ rest, azure_out := azure_out w @ [Raw f],
               azure_budget := b\<rparr>"
  have it: "c2a_iteration w = (True, ?w1)"
    using Cons.prems(2) b(1)
    by (simp add: c2a_iteration_def client_receive_def azure_send_def)
  have "azure_out (forward_client_to_azure ?w1) = azure_out ?w1 @ map Raw msgs"
    by (rule Cons.IH) (use b(2) Cons.prems(3) in simp_all)
  then show ?case
    by (subst forward_client_to_azure.simps) (simp add: it)
qed

lemma forward_azure_to_client_all:
  "accepts (client_budget w) (length msgs) \<Longrightarrow> azure_in w = msgs \<Longrightarrow>
   client_out (forward_azure_to_client w) = client_out w @ map Raw msgs"
proof (induction msgs arbitrary: w)
  case Nil
  then show ?case
    by (subst forward_azure_to_client.simps) (simp add: a2c_iteration_def)
next
  case (Cons f msgs)
  obtain b where b: "spend (client_budget w) = Inr b" "accepts b (length msgs)"
    using Cons.prems(1) spend_accepts [of _ "length msgs"] by auto
  let ?w1 = "w\<lparr>azure_in := msgs, client_out := client_out w @ [Raw f], client_budget := b\<rparr>"
  have it: "a2c_iteration w = (True, ?w1)"
    using Cons.prems(2) b(1)
    by (simp add: a2c_iteration_def client_send_def)
  have "client_out (forward_azure_to_client ?w1) = client_out ?w1 @ map Raw msgs"
    by (rule Cons.IH) (use b(2) in simp_all)
  then show ?case
    by (subst forward_azure_to_client.simps) (simp add: it)
qed

lemma c2a_task_step_cases:
  "c2a_task w = Running \<Longrightarrow>
   a2c_task (c2a_task_step w) = a2c_task w \<and> azure_in (c2a_task_step w) = azure_in w \<and>
   client_out (c2a_task_step w) = client_out w \<and>
   ((c2a_task (c2a_task_step w) = Running \<and>
       (\<exists>f. client_in w = Recv f # client_in (c2a_task_step w) \<and>
            azure_out (c2a_task_step w) = azure_out w @ [Raw f])) \<or>
    (c2a_task (c2a_task_step w) = Finished \<and> azure_out (c2a_task_step w) = azure_out w))"
  using c2a_iteration_cases [of w "fst (c2a_iteration w)" "snd (c2a_iteration w)"]
  by (auto simp: c2a_task_step_def split: prod.splits bool.splits if_splits)

lemma a2c_task_step_cases:
  "a2c_task w = Running \<Longrightarrow>
   c2a_task (a2c_task_step w) = c2a_task w \<and> client_in (a2c_task_step w) = client_in w \<and>
   azure_out (a2c_task_step w) = azure_out w \<and>
   ((a2c_task (a2c_task_step w) = Running \<and>
       (\<exists>f. azure_in w = f # azure_in (a2c_task_step w) \<and>
            client_out (a2c_task_step w) = client_out w @ [Raw f])) \<or>
    (a2c_task (a2c_task_step w) = Finished \<and> client_out (a2c_task_step w) = client_out w))"
  using a2c_iteration_cases [of w "fst (a2c_iteration w)" "snd (a2c_iteration w)"]
  by (auto simp: a2c_task_step_def split: prod.splits bool.splits if_splits)

lemma started_c2a_step: "started w \<Longrightarrow> c2a_task w = Running \<Longrightarrow> started (c2a_task_step w)"
  using c2a_task_step_cases [of w] by (auto simp: started_def)

lemma started_a2c_step: "started w \<Longrightarrow> a2c_task w = Running \<Longrightarrow> started (a2c_task_step w)"
  using a2c_task_step_cases [of w] by (auto simp: started_def)

lemma run_relay_returned:
  "run_relay ts w = Some w' \<Longrightarrow> started w \<Longrightarrow>
   (c2a_task w' = Finished \<and> a2c_task w' = Cancelled) \<or>
   (c2a_task w' = Cancelled \<and> a2c_task w' = Finished) \<or>
   (c2a_task w' = Finished \<and> a2c_task w' = Finished)"
proof (induction ts w rule: run_relay.induct)
  case (1 w)
  then show ?case by simp
next
  case (2 ts w)
  then show ?case by (auto simp: started_c2a_step split: if_splits)
next
  case (3 ts w)
  then show ?case by (auto simp: started_a2c_step split: if_splits)
next
  case (4 ts w)
  then show ?case by (auto simp: started_def cancel_pending_def split: if_splits)
qed

lemma run_relay_fair_c2a:
  "started w \<Longrightarrow> (c2a_task w = Running \<longrightarrow> length (client_in w) < count_list ts ClientToAzure)
   \<Longrightarrow> run_relay (ts @ Waiter # ts') w \<noteq> None"
proof (induction ts arbitrary: w)
  case Nil
  then show ?case by (auto simp: started_def)
next
  case (Cons t ts)
  show ?case
  proof (cases t)
    case ClientToAzure
    show ?thesis
    proof (cases "c2a_task w = Running")
      case True
      have st: "started (c2a_task_step w)" using Cons.prems(1) True by (rule started_c2a_step)
      have "c2a_task (c2a_task_step w) = Running \<longrightarrow>
            length (client_in (c2a_task_step w)) < count_list ts ClientToAzure"
        using c2a_task_step_cases [OF True] Cons.prems(2) True ClientToAzure by auto
      with st have "run_relay (ts @ Waiter # ts') (c2a_task_step w) \<noteq> None" by (rule Cons.IH)
      with True ClientToAzure show ?thesis by simp
    next
      case False
      with Cons.prems(1) have "run_relay (ts @ Waiter # ts') w \<noteq> None"
        by (intro Cons.IH) auto
      with False ClientToAzure show ?thesis by simp
    qed
  next
    case AzureToClient
    show ?thesis
    proof (cases "a2c_task w = Running")
      case True
      have st: "started (a2c_task_step w)" using Cons.prems(1) True by (rule started_a2c_step)
      have "c2a_task (a2c_task_step w) = Running \<longrightarrow>
            length (client_in (a2c_task_step w)) < count_list ts ClientToAzure"
        using a2c_task_step_cases [OF True] Cons.prems(2) AzureToClient by auto
      with st have "run_relay (ts @ Waiter # ts') (a2c_task_step w) \<noteq> None" by (rule Cons.IH)
      with True AzureToClient show ?thesis by simp
    next
      case False
      have "run_relay (ts @ Waiter # ts') w \<noteq> None"
        using Cons.prems AzureToClient by (intro Cons.IH) auto
      with False AzureToClient show ?thesis by simp
    qed
  next
    case Waiter
    have "run_relay (ts @ Waiter # ts') w \<noteq> None"
      using Cons.prems Waiter by (intro Cons.IH) auto
    with Waiter show ?thesis by simp
  qed
qed

lemma run_relay_fair_a2c:
  "started w \<Longrightarrow> (a2c_task w = Running \<longrightarrow> length (azure_in w) < count_list ts AzureToClient)
   \<Longrightarrow> run_relay (ts @ Waiter # ts') w \<noteq> None"
proof (induction ts arbitrary: w)
  case Nil
  then show ?case by (auto simp: started_def)
next
  case (Cons t ts)
  show ?case
  proof (cases t)
    case AzureToClient
    show ?thesis
    proof (cases "a2c_task w = Running")
      case True
      have st: "started (a2c_task_step w)" using Cons.prems(1) True by (rule started_a2c_step)
      have "a2c_task (a2c_task_step w) = Running \<longrightarrow>
            length (azure_in (a2c_task_step w)) < count_list ts AzureToClient"
        using a2c_task_step_cases [OF True] Cons.prems(2) True AzureToClient by auto
      with st have "run_relay (ts @ Waiter # ts') (a2c_task_step w) \<noteq> None" by (rule Cons.IH)
      with True AzureToClient show ?thesis by simp
    next
      case False
      with Cons.prems(1) have "run_relay (ts @ Waiter # ts') w \<noteq> None"
        by (intro Cons.IH) auto
      with False AzureToClient show ?thesis by simp
    qed
  next
    case ClientToAzure
    show ?thesis
    proof (cases "c2a_task w = Running")
      case True
      have st: "started (c2a_task_step w)" using Cons.prems(1) True by (rule started_c2a_step)
      have "a2c_task (c2a_task_step w) = Running \<longrightarrow>
            length (azure_in (c2a_task_step w)) < count_list ts AzureToClient"
        using c2a_task_step_cases [OF True] Cons.prems(2) ClientToAzure by auto
      with st have "run_relay (ts @ Waiter # ts') (c2a_task_step w) \<noteq> None" by (rule Cons.IH)
      with True ClientToAzure show ?thesis by simp
    next
      case False
      have "run_relay (ts @ Waiter # ts') w \<noteq> None"
        using Cons.prems ClientToAzure by (intro Cons.IH) auto
      with False ClientToAzure show ?thesis by simp
    qed
  next
    case Waiter
    have "run_relay (ts @ Waiter # ts') w \<noteq> None"
      using Cons.prems Waiter by (intro Cons.IH) auto
    with Waiter show ?thesis by simp
  qed
qed

lemma started_forwarding: "started (w\<lparr>c2a_task := Running, a2c_task := Running\<rparr>)"
  by (simp add: started_def)

lemma run_relay_upstream_prefix:
  "run_relay ts w = Some w' \<Longrightarrow>
   (c2a_task w = Running \<longrightarrow>
      (\<exists>k. azure_out w' = azure_out w @ map Raw (take k (leading_frames (client_in w))))) \<and>
   (c2a_task w \<noteq> Running \<longrightarrow> azure_out w' = azure_out w)"
proof (induction ts w rule: run_relay.induct)
  case (1 w)
  then show ?case by simp
next
  case (2 ts w)
  show ?case
  proof (cases "c2a_task w = Running")
    case True
    let ?w1 = "c2a_task_step w"
    from 2 True have ih:
      "c2a_task ?w1 = Running \<longrightarrow>
         (\<exists>k. azure_out w' = azure_out ?w1 @ map Raw (take k (leading_frames (client_in ?w1))))"
      "c2a_task ?w1 \<noteq> Running \<longrightarrow> azure_out w' = azure_out ?w1"
      by simp_all
    from c2a_task_step_cases [OF True]
    consider (go) f where "c2a_task ?w1 = Running" "client_in w = Recv f # client_in ?w1"
        "azure_out ?w1 = azure_out w @ [Raw f]"
      | (stop) "c2a_task ?w1 = Finished" "azure_out ?w1 = azure_out w"
      by blast
    then have "\<exists>k. azure_out w' = azure_out w @ map Raw (take k (leading_frames (client_in w)))"
    proof cases
      case go
      with ih(1) obtain k where
        "azure_out w' = azure_out w @ [Raw f] @ map Raw (take k (leading_frames (client_in ?w1)))"
        by auto
      then have "azure_out w' = azure_out w @ map Raw (take (Suc k) (leading_frames (client_in w)))"
        using go(2) by simp
      then show ?thesis ..
    next
      case stop
      with ih(2) have "azure_out w' = azure_out w @ map Raw (take 0 (leading_frames (client_in w)))"
        by simp
      then show ?thesis ..
    qed
    with True show ?thesis by simp
  next
    case False
    with 2 show ?thesis by simp
  qed
next
  case (3 ts w)
  show ?case
  proof (cases "a2c_task w = Running")
    case True
    with 3 a2c_task_step_cases [OF True] show ?thesis by simp
  next
    case False
    with 3 show ?thesis by simp
  qed
next
  case (4 ts w)
  show ?case
  proof (cases "c2a_task w = Finished \<or> a2c_task w = Finished")
    case True
    with 4 have eq: "azure_out w' = azure_out w" by (auto simp: cancel_pending_def)
    then have "azure_out w' = azure_out w @ map Raw (take 0 (leading_frames (client_in w)))"
      by simp
    then have "\<exists>k. azure_out w' = azure_out w @ map Raw (take k (leading_frames (client_in w)))" ..
    with eq show ?thesis by simp
  next
    case False
    with 4 show ?thesis by simp
  qed
qed

lemma run_relay_client_prefix:
  "run_relay ts w = Some w' \<Longrightarrow>
   (a2c_task w = Running \<longrightarrow>
      (\<exists>k. client_out w' = client_out w @ map Raw (take k (azure_in w)))) \<and>
   (a2c_task w \<noteq> Running \<longrightarrow> client_out w' = client_out w)"
proof (induction ts w rule: run_relay.induct)
  case (1 w)
  then show ?case by simp
next
  case (3 ts w)
  show ?case
  proof (cases "a2c_task w = Running")
    case True
    let ?w1 = "a2c_task_step w"
    from 3 True have ih:
      "a2c_task ?w1 = Running \<longrightarrow>
         (\<exists>k. client_out w' = client_out ?w1 @ map Raw (take k (azure_in ?w1)))"
      "a2c_task ?w1 \<noteq> Running \<longrightarrow> client_out w' = client_out ?w1"
      by simp_all
    from a2c_task_step_cases [OF True]
    consider (go) f where "a2c_task ?w1 = Running" "azure_in w = f # azure_in ?w1"
        "client_out ?w1 = client_out w @ [Raw f]"
      | (stop) "a2c_task ?w1 = Finished" "client_out ?w1 = client_out w"
      by blast
    then have "\<exists>k. client_out w' = client_out w @ map Raw (take k (azure_in w))"
    proof cases
      case go
      with ih(1) obtain k where
        "client_out w' = client_out w @ [Raw f] @ map Raw (take k (azure_in ?w1))"
        by auto
      then have "client_out w' = client_out w @ map Raw (take (Suc k) (azure_in w))"
        using go(2) by simp
      then show ?thesis ..
    next
      case stop
      with ih(2) have "client_out w' = client_out w @ map Raw (take 0 (azure_in w))"
        by simp
      then show ?thesis ..
    qed
    with True show ?thesis by simp
  next
    case False
    with 3 show ?thesis by simp
  qed
next
  case (2 ts w)
  show ?case
  proof (cases "c2a_task w = Running")
    case True
    with 2 c2a_task_step_cases [OF True] show ?thesis by simp
  next
    case False
    with 2 show ?thesis by simp
  qed
next
  case (4 ts w)
  show ?case
  proof (cases "c2a_task w = Finished \<or> a2c_task w = Finished")
    case True
    with 4 have eq: "client_out w' = client_out w" by (auto simp: cancel_pending_def)
    then have "client_out w' = client_out w @ map Raw (take 0 (azure_in w))"
      by simp
    then have "\<exists>k. client_out w' = client_out w @ map Raw (take k (azure_in w))" ..
    with eq show ?thesis by simp
  next
    case False
    with 4 show ?thesis by simp
  qed
qed

lemma forwarding_upstream_prefix:
  "handle_message_forwarding ts w = Some w' \<Longrightarrow>
   \<exists>k. azure_out w' = azure_out w @ map Raw (take k (leading_frames (client_in w)))"
  unfolding handle_message_forwarding_def
  by (drule run_relay_upstream_prefix) simp

lemma forwarding_client_prefix:
  "handle_message_forwarding ts w = Some w' \<Longrightarrow>
   \<exists>k. client_out w' = client_out w @ map Raw (take k (azure_in w))"
  unfolding handle_message_forwarding_def
  by (drule run_relay_client_prefix) simp

lemma relay_world_run: "handle_message_forwarding relay_sched relay_world = Some relay_world_final"
  by (simp add: handle_message_forwarding_def relay_sched_def relay_world_def initial_world_def
        relay_world_final_def c2a_task_step_def a2c_task_step_def c2a_iteration_def
        a2c_iteration_def client_receive_def client_send_def azure_send_def spend_def
        cancel_pending_def)

section \<open>Properties of the handshake, the route and the configuration message\<close>

lemma handshake_consumes_one:
  "snd (get_agent_id_from_client E w) = w\<lparr>client_in := drop 1 (client_in w)\<rparr>"
  by (auto simp: get_agent_id_from_client_def client_receive_def
           split: list.splits recv.splits sum.splits option.splits)

lemma handshake_result:
  "fst (get_agent_id_from_client E w) =
     (case client_in w of
        Recv f # rest \<Rightarrow>
          (if frame_truthy f then
             (case json_loads E f of
                Inr (PDict msg) \<Rightarrow>
                  (if map_of msg ''type'' = Some (PStr ''session.update'') then
                     (case map_of msg ''session'' of
                        None \<Rightarrow> PNone
                      | Some (PDict sess) \<Rightarrow>
                          (case map_of sess ''agent_id'' of None \<Rightarrow> PNone | Some a \<Rightarrow> a)
                      | Some _ \<Rightarrow> PNone)
                   else PNone)
              | _ \<Rightarrow> PNone)
           else PNone)
      | _ \<Rightarrow> PNone)"
  by (auto simp: get_agent_id_from_client_def client_receive_def py_get_def dict_get_def
           split: list.splits recv.splits sum.splits option.splits pyval.splits)

lemma send_initial_config_none:
  "send_initial_config E None w =
     azure_send (JsonDumps (PDict [(''type'', PStr ''session.update''),
                                   (''session'', PDict default_session)])) w"
  by (simp add: send_initial_config_def initial_config_message_def json_dumps_defaults)

lemma connect_no_agent:
  "connect_to_azure E PNone w =
     (if azure_openai_api_key (cfg E) = [] then (False, w)
      else (case websockets_connect E
                   (base_url E @
                    (if agent_id_cfg (cfg E) \<noteq> [] then ''&agent-id='' @ agent_id_cfg (cfg E)
                     else ''&model='' @ model_deployment_name (cfg E)))
                   [(''api-key'', azure_openai_api_key (cfg E))] w of
              (Some e, w1) \<Rightarrow> (False, w1)
            | (None, w1) \<Rightarrow>
                (case azure_send (JsonDumps (PDict [(''type'', PStr ''session.update''),
                                                   (''session'', PDict default_session)])) w1 of
                   Inl e \<Rightarrow> (False, w1)
                 | Inr w2 \<Rightarrow> (True, w2))))"
  by (simp add: connect_to_azure_def build_azure_url_def send_initial_config_none Let_def
           split: prod.splits option.splits)

lemma demo_cfg_fields:
  "azure_ai_resource_name demo_cfg = ''res'' \<and> azure_ai_project_name demo_cfg = ''proj'' \<and>
   agent_id_cfg demo_cfg = [] \<and> azure_openai_api_key demo_cfg = ''secret'' \<and>
   model_deployment_name demo_cfg = ''gpt-4o''"
  by (simp add: demo_cfg_def load_config_def getenv_def)

lemma lower_True:
  "lower_char CHR ''T'' = CHR ''t''" "lower_char CHR ''r'' = CHR ''r''"
  "lower_char CHR ''u'' = CHR ''u''" "lower_char CHR ''e'' = CHR ''e''"
  by code_simp+

lemma azure_cfg_fields:
  "azure_ai_resource_name azure_cfg = ''res'' \<and> azure_ai_project_name azure_cfg = ''proj'' \<and>
   agent_id_cfg azure_cfg = ''asst_default'' \<and> azure_openai_api_key azure_cfg = ''secret'' \<and>
   model_deployment_name azure_cfg = ''gpt-4o'' \<and> use_azure_ai_agents_cfg azure_cfg \<and>
   project_endpoint azure_cfg = ''https://proj.example''"
  by (simp add: azure_cfg_def load_config_def getenv_def lower_True)

lemma azure_create:
  "create_agent azure_cfg (Inr ''asst_42'') ''0123abcd4567'' 0 ''s1'' demo_scenario
     (agent_manager_init azure_cfg True True) = Inr (''asst_42'', azure_manager)"
  by (simp add: create_agent_def demo_scenario_def dict_get_def py_first_def py_get_def
        py_add_str_def agent_manager_init_def initialize_project_client_def azure_cfg_fields
        create_azure_agent_def azure_manager_def demo_azure_profile_def Let_def)

lemma azure_reachable: "reachable azure_cfg azure_manager"
  by (rule reachable.created [OF reachable.init azure_create])

text \<open>
  C7. \<open>_get_agent_id_from_client\<close> always returns (its result is a value, no
  exception leaves it) and consumes one result of \<open>receive()\<close>. It returns
  \<open>None\<close> unless the first frame is there, is not empty, parses as a JSON object of
  type \<open>session.update\<close> whose \<open>session\<close> is an object with an \<open>agent_id\<close>
  entry; in that case it returns that entry. So a missing, empty or non-JSON first
  message, a JSON message of another type and a \<open>session.update\<close> without nested
  \<open>agent_id\<close> all give \<open>None\<close>. With \<open>None\<close> the connector resolves no
  profile: it connects by the default route and sends the defaults.
\<close>

theorem handshake_agent_id:
  assumes "get_agent_id_from_client E w = (a, w1)"
  shows "(a = PNone \<or>
          (\<exists>f rest msg sess. client_in w = Recv f # rest \<and> frame_truthy f \<and>
             json_loads E f = Inr (PDict msg) \<and>
             map_of msg ''type'' = Some (PStr ''session.update'') \<and>
             map_of msg ''session'' = Some (PDict sess) \<and>
             map_of sess ''agent_id'' = Some a)) \<and>
         (\<forall>f rest msg sess b. client_in w = Recv f # rest \<and> frame_truthy f \<and>
             json_loads E f = Inr (PDict msg) \<and>
             map_of msg ''type'' = Some (PStr ''session.update'') \<and>
             map_of msg ''session'' = Some (PDict sess) \<and>
             map_of sess ''agent_id'' = Some b \<longrightarrow> a = b) \<and>
         w1 = w\<lparr>client_in := drop 1 (client_in w)\<rparr> \<and>
         (a = PNone \<longrightarrow>
            connect_to_azure E a w1 =
              (if azure_openai_api_key (cfg E) = [] then (False, w1)
               else (case websockets_connect E
                            (base_url E @
                             (if agent_id_cfg (cfg E) \<noteq> []
                              then ''&agent-id='' @ agent_id_cfg (cfg E)
                              else ''&model='' @ model_deployment_name (cfg E)))
                            [(''api-key'', azure_openai_api_key (cfg E))] w1 of
                       (Some e, w2) \<Rightarrow> (False, w2)
                     | (None, w2) \<Rightarrow>
                         (case azure_send
                                 (JsonDumps (PDict [(''type'', PStr ''session.update''),
                                                    (''session'', PDict default_session)])) w2 of
                            Inl e \<Rightarrow> (False, w2)
                          | Inr w3 \<Rightarrow> (True, w3)))))"
proof -
  from assms have a: "a = fst (get_agent_id_from_client E w)"
    and w1: "w1 = snd (get_agent_id_from_client E w)" by simp_all
  have p1: "a = PNone \<or>
          (\<exists>f rest msg sess. client_in w = Recv f # rest \<and> frame_truthy f \<and>
             json_loads E f = Inr (PDict msg) \<and>
             map_of msg ''type'' = Some (PStr ''session.update'') \<and>
             map_of msg ''session'' = Some (PDict sess) \<and>
             map_of sess ''agent_id'' = Some a)"
    unfolding a handshake_result
    by (auto split: list.splits recv.splits sum.splits option.splits pyval.splits)
  have p2: "\<forall>f rest msg sess b. client_in w = Recv f # rest \<and> frame_truthy f \<and>
             json_loads E f = Inr (PDict msg) \<and>
             map_of msg ''type'' = Some (PStr ''session.update'') \<and>
             map_of msg ''session'' = Some (PDict sess) \<and>
             map_of sess ''agent_id'' = Some b \<longrightarrow> a = b"
    unfolding a handshake_result by auto
  have p3: "w1 = w\<lparr>client_in := drop 1 (client_in w)\<rparr>"
    unfolding w1 by (rule handshake_consumes_one)
  from p1 p2 p3 show ?thesis by (simp add: connect_no_agent)
qed

theorem handshake_agent_id_witness:
  "get_agent_id_from_client demo_deps
     (initial_world [Recv (Text (handshake_text ''local-agent-s1-0123abcd''))] None) =
     (PStr ''local-agent-s1-0123abcd'', initial_world [] None) \<and>
   get_agent_id_from_client demo_deps (initial_world [Recv (Binary ''audio0'')] None) =
     (PNone, initial_world [] None) \<and>
   get_agent_id_from_client demo_deps (initial_world [] None) = (PNone, initial_world [] None) \<and>
   fst (connect_to_azure demo_deps PNone (initial_world [] None))"
proof -
  have h1: "get_agent_id_from_client demo_deps
     (initial_world [Recv (Text (handshake_text ''local-agent-s1-0123abcd''))] None) =
     (PStr ''local-agent-s1-0123abcd'', initial_world [] None)"
    by (simp add: get_agent_id_from_client_def client_receive_def initial_world_def
          frame_truthy_def demo_deps_def demo_json_loads_def handshake_text_def q_def dquote_def
          py_get_def dict_get_def)
  have h2: "get_agent_id_from_client demo_deps (initial_world [Recv (Binary ''audio0'')] None) =
     (PNone, initial_world [] None)"
    by (simp add: get_agent_id_from_client_def client_receive_def initial_world_def
          frame_truthy_def demo_deps_def demo_json_loads_def)
  have h3: "get_agent_id_from_client demo_deps (initial_world [] None) =
     (PNone, initial_world [] None)"
    by (simp add: get_agent_id_from_client_def client_receive_def initial_world_def)
  have k: "azure_openai_api_key (cfg demo_deps) = ''secret''" "net demo_deps = Inr ([Text ''hi''], None)"
    by (simp_all add: demo_deps_def demo_cfg_fields)
  from handshake_agent_id [OF h2, THEN conjunct2, THEN conjunct2, THEN conjunct2] k
  have "fst (connect_to_azure demo_deps PNone (initial_world [] None))"
    by (simp add: websockets_connect_def azure_send_def spend_def Let_def)
  with h1 h2 h3 show ?thesis by simp
qed

lemma resolve_cases:
  assumes "(if truthy agent_id then get_agent m agent_id else Inr None) = Inr profile"
  shows "(\<exists>s. agent_id = PStr s \<and> s \<noteq> [] \<and> profile = agents m s) \<or>
         (profile = None \<and> (\<forall>s. agent_id = PStr s \<longrightarrow> s = []))"
  using assms by (cases agent_id) (auto simp: get_agent_def split: if_splits)

lemma build_azure_url_none:
  "build_azure_url E agent_id None =
     base_url E @ (if agent_id_cfg (cfg E) \<noteq> [] then ''&agent-id='' @ agent_id_cfg (cfg E)
                   else ''&model='' @ model_deployment_name (cfg E))"
  by (simp add: build_azure_url_def)

lemma build_azure_url_remote:
  "map_of d ''is_azure_agent'' = Some (PBool True) \<Longrightarrow>
   build_azure_url E (PStr s) (Some d) = base_url E @ ''&agent-id='' @ s"
  by (auto simp: build_azure_url_def dict_get_def py_format_def)

lemma build_azure_url_local:
  "map_of d ''is_azure_agent'' = Some (PBool False) \<Longrightarrow> map_of d ''model'' = Some M \<Longrightarrow>
   build_azure_url E agent_id (Some d) = base_url E @ ''&model='' @ py_format (fmt E) M"
  by (auto simp: build_azure_url_def dict_get_def)

lemma connect_attempt:
  assumes "(if truthy agent_id then get_agent (manager E) agent_id else Inr None) = Inr profile"
    and "azure_openai_api_key (cfg E) \<noteq> []"
  shows "connect_attempts (snd (connect_to_azure E agent_id w)) =
           connect_attempts w @
           [(build_azure_url E agent_id profile, [(''api-key'', azure_openai_api_key (cfg E))])]"
  using assms
  by (auto simp: connect_to_azure_def websockets_connect_def Let_def azure_send_def
        send_initial_config_def json_dumps_def
        split: sum.splits prod.splits option.splits if_splits)

lemma url_routing_resolved:
  assumes "reachable (cfg E) (manager E)"
    and "(if truthy agent_id then get_agent (manager E) agent_id else Inr None) = Inr profile"
  shows "(\<exists>route. build_azure_url E agent_id profile = base_url E @ route \<and>
            (\<forall>s d. agent_id = PStr s \<and> profile = Some d \<and>
                   map_of d ''is_azure_agent'' = Some (PBool True) \<longrightarrow>
                   route = ''&agent-id='' @ s) \<and>
            (\<forall>d. profile = Some d \<and> map_of d ''is_azure_agent'' = Some (PBool False) \<longrightarrow>
                 (\<exists>M. map_of d ''model'' = Some M \<and>
                      route = ''&model='' @ py_format (fmt E) M)) \<and>
            (profile = None \<and> agent_id_cfg (cfg E) \<noteq> [] \<longrightarrow>
               route = ''&agent-id='' @ agent_id_cfg (cfg E)) \<and>
            (profile = None \<and> agent_id_cfg (cfg E) = [] \<longrightarrow>
               route = ''&model='' @ model_deployment_name (cfg E))) \<and>
         (\<forall>s. agent_id = PStr s \<and> agents (manager E) s = None \<longrightarrow> profile = None) \<and>
         (\<forall>d. profile = Some d \<longrightarrow>
              (\<exists>b. map_of d ''is_azure_agent'' = Some (PBool b)) \<and>
              (\<exists>s. agent_id = PStr s \<and> agents (manager E) s = Some d)) \<and>
         (azure_openai_api_key (cfg E) \<noteq> [] \<longrightarrow>
            connect_attempts (snd (connect_to_azure E agent_id w)) =
              connect_attempts w @
              [(build_azure_url E agent_id profile,
                [(''api-key'', azure_openai_api_key (cfg E))])])"
proof -
  have res: "(\<exists>s. agent_id = PStr s \<and> s \<noteq> [] \<and> profile = agents (manager E) s) \<or>
         (profile = None \<and> (\<forall>s. agent_id = PStr s \<longrightarrow> s = []))"
    using assms(2) by (rule resolve_cases)
  have absent: "\<forall>s. agent_id = PStr s \<and> agents (manager E) s = None \<longrightarrow> profile = None"
    using res by auto
  have present: "\<forall>d. profile = Some d \<longrightarrow>
              (\<exists>b. map_of d ''is_azure_agent'' = Some (PBool b)) \<and>
              (\<exists>s. agent_id = PStr s \<and> agents (manager E) s = Some d)"
  proof (intro allI impI)
    fix d assume d: "profile = Some d"
    with res obtain s where s: "agent_id = PStr s" "agents (manager E) s = Some d" by auto
    from reachable_profile_ok [OF assms(1) s(2)] profile_ok_fields
    have "\<exists>b. map_of d ''is_azure_agent'' = Some (PBool b)" by blast
    with s show "(\<exists>b. map_of d ''is_azure_agent'' = Some (PBool b)) \<and>
              (\<exists>s. agent_id = PStr s \<and> agents (manager E) s = Some d)" by blast
  qed
  have route: "\<exists>route. build_azure_url E agent_id profile = base_url E @ route \<and>
            (\<forall>s d. agent_id = PStr s \<and> profile = Some d \<and>
                   map_of d ''is_azure_agent'' = Some (PBool True) \<longrightarrow>
                   route = ''&agent-id='' @ s) \<and>
            (\<forall>d. profile = Some d \<and> map_of d ''is_azure_agent'' = Some (PBool False) \<longrightarrow>
                 (\<exists>M. map_of d ''model'' = Some M \<and>
                      route = ''&model='' @ py_format (fmt E) M)) \<and>
            (profile = None \<and> agent_id_cfg (cfg E) \<noteq> [] \<longrightarrow>
               route = ''&agent-id='' @ agent_id_cfg (cfg E)) \<and>
            (profile = None \<and> agent_id_cfg (cfg E) = [] \<longrightarrow>
               route = ''&model='' @ model_deployment_name (cfg E))"
  proof (cases profile)
    case None
    then show ?thesis by (simp add: build_azure_url_none)
  next
    case (Some d)
    with present obtain b s where bs: "map_of d ''is_azure_agent'' = Some (PBool b)"
      "agent_id = PStr s" "agents (manager E) s = Some d" by blast
    from reachable_profile_ok [OF assms(1) bs(3)] profile_ok_fields
    obtain M where M: "map_of d ''model'' = Some M" by blast
    show ?thesis
    proof (cases b)
      case True
      with bs Some show ?thesis by (simp add: build_azure_url_remote)
    next
      case False
      with bs Some M show ?thesis by (simp add: build_azure_url_local)
    qed
  qed
  from route absent present connect_attempt [OF assms(2)] show ?thesis by blast
qed

lemma connect_success:
  assumes "(if truthy agent_id then get_agent (manager E) agent_id else Inr None) = Inr profile"
    and "connect_to_azure E agent_id w = (True, w')"
  shows "\<exists>message. initial_config_message (cfg E) profile = Inr message \<and>
           azure_out w' = [JsonDumps message] \<and> client_in w' = client_in w \<and>
           client_out w' = client_out w \<and> client_budget w' = client_budget w \<and>
           azure_opened w' = Suc (azure_opened w) \<and> azure_closed w' = 0"
  using assms
  by (auto simp: connect_to_azure_def websockets_connect_def Let_def azure_send_def
        send_initial_config_def json_dumps_def
        split: sum.splits prod.splits option.splits if_splits)

lemma default_session_keys:
  "map_of default_session ''model'' = None \<and> map_of default_session ''instructions'' = None \<and>
   map_of default_session ''temperature'' = None \<and>
   map_of default_session ''max_response_output_tokens'' = None"
  by (simp add: default_session_def)

lemma config_contents_resolved:
  assumes "reachable (cfg E) (manager E)"
    and "(if truthy agent_id then get_agent (manager E) agent_id else Inr None) = Inr profile"
  shows "\<exists>message. initial_config_message (cfg E) profile = Inr message \<and>
           (profile = None \<longrightarrow> message = defaults_message) \<and>
           (\<forall>d. profile = Some d \<and> map_of d ''is_azure_agent'' = Some (PBool True) \<longrightarrow>
                message = defaults_message) \<and>
           (\<forall>d. profile = Some d \<and> map_of d ''is_azure_agent'' = Some (PBool False) \<longrightarrow>
                (\<exists>M I T K. map_of d ''model'' = Some M \<and> map_of d ''instructions'' = Some I \<and>
                   map_of d ''temperature'' = Some T \<and> map_of d ''max_tokens'' = Some K \<and>
                   message =
                     PDict [(''type'', PStr ''session.update''),
                            (''session'', PDict (default_session @
                               [(''model'', M), (''instructions'', I), (''temperature'', T),
                                (''max_response_output_tokens'', K)]))])) \<and>
           (\<forall>d. profile = Some d \<longrightarrow> (\<exists>b. map_of d ''is_azure_agent'' = Some (PBool b))) \<and>
           (\<forall>w w'. connect_to_azure E agent_id w = (True, w') \<longrightarrow>
                azure_out w' = [JsonDumps message]) \<and>
           map_of default_session ''model'' = None \<and>
           map_of default_session ''instructions'' = None \<and>
           map_of default_session ''temperature'' = None \<and>
           map_of default_session ''max_response_output_tokens'' = None"
proof (cases profile)
  case None
  have "\<forall>w w'. connect_to_azure E agent_id w = (True, w') \<longrightarrow>
          azure_out w' = [JsonDumps defaults_message]"
    using connect_success [OF assms(2)] None
    by (fastforce simp: initial_config_none defaults_message_def)
  with None default_session_keys show ?thesis
    by (simp add: initial_config_none defaults_message_def)
next
  case (Some d)
  with resolve_cases [OF assms(2)] obtain s where "agents (manager E) s = Some d" by auto
  from reachable_profile_ok [OF assms(1) this] profile_ok_fields
  obtain b M I T K where f: "map_of d ''is_azure_agent'' = Some (PBool b)"
    "map_of d ''model'' = Some M" "map_of d ''instructions'' = Some I"
    "map_of d ''temperature'' = Some T" "map_of d ''max_tokens'' = Some K" by blast
  show ?thesis
  proof (cases b)
    case True
    have m: "initial_config_message (cfg E) profile = Inr defaults_message"
      using Some f True by (simp add: initial_config_remote defaults_message_def)
    have "\<forall>w w'. connect_to_azure E agent_id w = (True, w') \<longrightarrow>
            azure_out w' = [JsonDumps defaults_message]"
      using connect_success [OF assms(2)] m by fastforce
    with m Some f True default_session_keys show ?thesis by auto
  next
    case False
    let ?msg = "PDict [(''type'', PStr ''session.update''),
                       (''session'', PDict (default_session @
                          [(''model'', M), (''instructions'', I), (''temperature'', T),
                           (''max_response_output_tokens'', K)]))]"
    have m: "initial_config_message (cfg E) profile = Inr ?msg"
      using Some f False by (simp add: initial_config_local)
    have "\<forall>w w'. connect_to_azure E agent_id w = (True, w') \<longrightarrow> azure_out w' = [JsonDumps ?msg]"
      using connect_success [OF assms(2)] m by fastforce
    with m Some f False default_session_keys show ?thesis by auto
  qed
qed

section \<open>The first client frame\<close>

lemma connect_failure:
  "connect_to_azure E a w = (False, w') \<Longrightarrow> azure_out w' = azure_out w \<or> azure_out w' = []"
  by (auto simp: connect_to_azure_def websockets_connect_def Let_def azure_send_def
        send_initial_config_def json_dumps_def
        split: sum.splits prod.splits option.splits if_splits)

lemma connect_keeps_client_in:
  "connect_to_azure E a w = (r, w') \<Longrightarrow> client_in w' = client_in w"
  by (auto simp: connect_to_azure_def websockets_connect_def Let_def azure_send_def
        send_initial_config_def json_dumps_def
        split: sum.splits prod.splits option.splits if_splits)

lemma connect_success_out:
  "connect_to_azure E a w = (True, w') \<Longrightarrow> \<exists>message. azure_out w' = [JsonDumps message]"
  by (auto simp: connect_to_azure_def websockets_connect_def Let_def azure_send_def
        send_initial_config_def json_dumps_def
        split: sum.splits prod.splits option.splits if_splits)

lemma send_message_keeps:
  "azure_out (send_message x w) = azure_out w \<and> client_in (send_message x w) = client_in w \<and>
   azure_opened (send_message x w) = azure_opened w \<and>
   azure_closed (send_message x w) = azure_closed w"
  by (auto simp: send_message_def client_send_def json_dumps_def split: sum.splits)

lemma send_error_keeps:
  "azure_out (send_error x w) = azure_out w \<and> client_in (send_error x w) = client_in w"
  by (simp add: send_error_def send_message_keeps)

lemma audio_session_run:
  "handle_connection demo_deps (initial_world audio_script None) = Some audio_session_final"
  by (simp add: handle_connection_def demo_deps_def get_agent_id_from_client_def
        client_receive_def initial_world_def audio_script_def frame_truthy_def
        demo_json_loads_def handshake_text_def q_def dquote_def
        connect_no_agent demo_cfg_fields base_url_def websockets_connect_def azure_send_def
        spend_def send_message_def json_dumps_proxy_connected client_send_def
        handle_message_forwarding_def
        c2a_task_step_def a2c_task_step_def c2a_iteration_def a2c_iteration_def
        cancel_pending_def azure_close_def audio_session_final_def defaults_message_def)

text \<open>
  C9. When a session returns, what was written to the upstream socket is nothing, or
  the configuration message followed by frames of the client's stream taken in order
  from its second entry on: the first result of \<open>receive()\<close> is used up by the
  handshake whatever it holds, and is never written upstream. The example is a client
  whose first frame is binary audio.
\<close>

theorem first_frame_never_forwarded:
  assumes "handle_connection E (initial_world script budget) = Some w'"
  shows "azure_out w' = [] \<or>
         (\<exists>message k. azure_out w' =
            JsonDumps message # map Raw (take k (leading_frames (drop 1 script))))"
proof -
  let ?w0 = "initial_world script budget"
  obtain a w1 where h: "get_agent_id_from_client E ?w0 = (a, w1)" by fastforce
  then have w1: "w1 = ?w0\<lparr>client_in := drop 1 script\<rparr>"
    using handshake_consumes_one [of E ?w0] by (simp add: initial_world_def)
  obtain r w2 where c: "connect_to_azure E a w1 = (r, w2)" by fastforce
  have in2: "client_in w2 = drop 1 script"
    using connect_keeps_client_in [OF c] w1 by simp
  show ?thesis
  proof (cases r)
    case False
    with assms h c have "w' = send_error ''Failed to connect to Azure Voice API'' w2"
      by (simp add: handle_connection_def)
    moreover from connect_failure c False w1 have "azure_out w2 = []"
      by (fastforce simp: initial_world_def)
    ultimately show ?thesis by (simp add: send_error_keeps)
  next
    case True
    with c have "connect_to_azure E a w1 = (True, w2)" by simp
    from connect_success_out [OF this] obtain message where
      m: "azure_out w2 = [JsonDumps message]" by blast
    from assms h c True obtain w3 where
      f: "handle_message_forwarding (sched E) (send_message proxy_connected w2) = Some w3"
      and w': "w' = azure_close w3"
      by (auto simp: handle_connection_def split: option.splits)
    from forwarding_upstream_prefix [OF f] obtain k where
      "azure_out w3 = azure_out (send_message proxy_connected w2) @
         map Raw (take k (leading_frames (client_in (send_message proxy_connected w2))))"
      by blast
    with m in2 w' have "azure_out w' =
        JsonDumps message # map Raw (take k (leading_frames (drop 1 script)))"
      by (simp add: send_message_keeps azure_close_def)
    then show ?thesis by blast
  qed
qed

theorem first_frame_never_forwarded_witness:
  "handle_connection demo_deps (initial_world audio_script None) = Some audio_session_final \<and>
   azure_out audio_session_final = [JsonDumps defaults_message, Raw (Binary ''audio1'')] \<and>
   (azure_out audio_session_final = [] \<or>
    (\<exists>message k. azure_out audio_session_final =
       JsonDumps message # map Raw (take k (leading_frames (drop 1 audio_script)))))"
  using first_frame_never_forwarded [OF audio_session_run] audio_session_run
  by (simp add: audio_session_final_def)

section \<open>The states of the relay before it returns\<close>

lemma relay_trace_nonempty: "relay_trace ts w \<noteq> []"
  by (induction ts w rule: relay_trace.induct) auto

lemma run_relay_trace_last:
  "run_relay ts w = Some w' \<Longrightarrow> last (relay_trace ts w) = w'"
  by (induction ts w rule: run_relay.induct) (auto simp: relay_trace_nonempty split: if_splits)

lemma run_relay_append:
  "run_relay ts w = None \<Longrightarrow> run_relay (ts @ ts') w = run_relay ts' (last (relay_trace ts w))"
  by (induction ts w rule: run_relay.induct) (auto simp: relay_trace_nonempty split: if_splits)

lemma cancel_pending_none_running:
  "c2a_task (cancel_pending v) \<noteq> Running \<and> a2c_task (cancel_pending v) \<noteq> Running"
  by (simp add: cancel_pending_def)

lemma half_open_trace:
  "relay_trace half_open_sched half_open_world =
     [half_open_world,
      half_open_world\<lparr>client_in := [], c2a_task := Finished\<rparr>,
      half_open_world\<lparr>client_in := [], c2a_task := Finished,
        azure_in := [Text ''y'', Text ''z''], client_out := [Raw (Text ''x'')]\<rparr>,
      half_open_world\<lparr>client_in := [], c2a_task := Finished,
        azure_in := [Text ''z''], client_out := [Raw (Text ''x''), Raw (Text ''y'')]\<rparr>,
      half_open_world\<lparr>client_in := [], c2a_task := Finished,
        azure_in := [], client_out := [Raw (Text ''x''), Raw (Text ''y''), Raw (Text ''z'')]\<rparr>,
      half_open_world\<lparr>client_in := [], c2a_task := Finished,
        azure_in := [], client_out := [Raw (Text ''x''), Raw (Text ''y''), Raw (Text ''z'')],
        a2c_task := Cancelled\<rparr>]"
  by (simp add: half_open_sched_def half_open_world_def initial_world_def c2a_task_step_def
        a2c_task_step_def c2a_iteration_def a2c_iteration_def client_receive_def client_send_def
        spend_def cancel_pending_def)

lemma relay_world_waiting:
  "handle_message_forwarding relay_sched_waiting relay_world = None \<and>
   last (relay_trace relay_sched_waiting (relay_world\<lparr>c2a_task := Running, a2c_task := Running\<rparr>)) =
     relay_world_final\<lparr>a2c_task := Running\<rparr>"
  by (simp add: handle_message_forwarding_def relay_sched_waiting_def relay_world_def
        initial_world_def relay_world_final_def c2a_task_step_def a2c_task_step_def
        c2a_iteration_def a2c_iteration_def client_receive_def client_send_def azure_send_def
        spend_def relay_trace_nonempty)

lemma relay_world_run_upstream:
  "handle_message_forwarding relay_sched_upstream relay_world = Some relay_world_upstream_final"
  by (simp add: handle_message_forwarding_def relay_sched_upstream_def relay_world_def
        initial_world_def relay_world_upstream_final_def c2a_task_step_def a2c_task_step_def
        c2a_iteration_def a2c_iteration_def client_receive_def client_send_def azure_send_def
        spend_def cancel_pending_def)

text \<open>
  C2, as stated, does not hold: a state in which one forwarding task has ended while
  the other is running and not cancelled is reached. In the relay below the client
  closes at once, so after the first turn the client-to-upstream task is finished
  and the other task is running; it stays running for three more turns and forwards
  three frames to the client before the waiter's turn comes and cancels it.
\<close>

theorem half_open_state_reached:
  "c2a_task (relay_trace half_open_sched half_open_world ! 1) = Finished \<and>
   a2c_task (relay_trace half_open_sched half_open_world ! 1) = Running \<and>
   client_out (relay_trace half_open_sched half_open_world ! 1) = [] \<and>
   c2a_task (relay_trace half_open_sched half_open_world ! 4) = Finished \<and>
   a2c_task (relay_trace half_open_sched half_open_world ! 4) = Running \<and>
   client_out (relay_trace half_open_sched half_open_world ! 4) =
     [Raw (Text ''x''), Raw (Text ''y''), Raw (Text ''z'')] \<and>
   handle_message_forwarding half_open_sched half_open_world =
     Some (last (relay_trace half_open_sched half_open_world))"
  by (simp add: half_open_trace)
     (simp add: handle_message_forwarding_def half_open_sched_def half_open_world_def
        initial_world_def c2a_task_step_def
        a2c_task_step_def c2a_iteration_def a2c_iteration_def client_receive_def client_send_def
        spend_def cancel_pending_def)

text \<open>
  C2, amended. Whenever the relay returns, at least one forwarding task has finished
  and the other one has finished too or has been cancelled: no task is left running.
  The relay does return: once one of the tasks has had more turns than its stream has
  entries (so that it has finished, by the end of the stream or by an error), the next
  turn of the waiter returns. And whenever the relay is still waiting in a state in
  which a task has finished, the waiter's next turn returns from that state with the
  task that was still running cancelled. Between the end of a task and that turn the
  other task can still run.
\<close>

theorem relay_cancels_sibling:
  "(handle_message_forwarding ts w = Some w' \<longrightarrow>
      (c2a_task w' = Finished \<and> a2c_task w' = Cancelled) \<or>
      (c2a_task w' = Cancelled \<and> a2c_task w' = Finished) \<or>
      (c2a_task w' = Finished \<and> a2c_task w' = Finished)) \<and>
   (length (client_in w) < count_list ts ClientToAzure \<or>
    length (azure_in w) < count_list ts AzureToClient \<longrightarrow>
      handle_message_forwarding (ts @ Waiter # ts') w \<noteq> None) \<and>
   (handle_message_forwarding ts w = None \<and>
    v = last (relay_trace ts (w\<lparr>c2a_task := Running, a2c_task := Running\<rparr>)) \<and>
    (c2a_task v = Finished \<or> a2c_task v = Finished) \<longrightarrow>
      handle_message_forwarding (ts @ Waiter # ts') w = Some (cancel_pending v) \<and>
      c2a_task (cancel_pending v) \<noteq> Running \<and> a2c_task (cancel_pending v) \<noteq> Running)"
proof (intro conjI impI)
  assume "handle_message_forwarding ts w = Some w'"
  then show "(c2a_task w' = Finished \<and> a2c_task w' = Cancelled) \<or>
      (c2a_task w' = Cancelled \<and> a2c_task w' = Finished) \<or>
      (c2a_task w' = Finished \<and> a2c_task w' = Finished)"
    unfolding handle_message_forwarding_def
    by (rule run_relay_returned) (rule started_forwarding)
next
  assume "length (client_in w) < count_list ts ClientToAzure \<or>
          length (azure_in w) < count_list ts AzureToClient"
  then show "handle_message_forwarding (ts @ Waiter # ts') w \<noteq> None"
    unfolding handle_message_forwarding_def
    using run_relay_fair_c2a [OF started_forwarding, of w ts ts']
          run_relay_fair_a2c [OF started_forwarding, of w ts ts']
    by auto
next
  assume a: "handle_message_forwarding ts w = None \<and>
    v = last (relay_trace ts (w\<lparr>c2a_task := Running, a2c_task := Running\<rparr>)) \<and>
    (c2a_task v = Finished \<or> a2c_task v = Finished)"
  let ?w0 = "w\<lparr>c2a_task := Running, a2c_task := Running\<rparr>"
  from a have n: "run_relay ts ?w0 = None" and v: "v = last (relay_trace ts ?w0)"
    and f: "c2a_task v = Finished \<or> a2c_task v = Finished"
    by (auto simp: handle_message_forwarding_def)
  have "run_relay (ts @ Waiter # ts') ?w0 = run_relay (Waiter # ts') v"
    unfolding v by (rule run_relay_append [OF n])
  also have "\<dots> = Some (cancel_pending v)" using f by simp
  finally show "handle_message_forwarding (ts @ Waiter # ts') w = Some (cancel_pending v)"
    by (simp add: handle_message_forwarding_def)
next
  show "c2a_task (cancel_pending v) \<noteq> Running" by (simp add: cancel_pending_def)
next
  show "a2c_task (cancel_pending v) \<noteq> Running" by (simp add: cancel_pending_def)
qed

theorem relay_cancels_sibling_witness:
  "handle_message_forwarding relay_sched relay_world = Some relay_world_final \<and>
   c2a_task relay_world_final = Finished \<and> a2c_task relay_world_final = Cancelled \<and>
   length (client_in relay_world) < count_list relay_sched ClientToAzure \<and>
   handle_message_forwarding (relay_sched @ [Waiter]) relay_world \<noteq> None \<and>
   handle_message_forwarding relay_sched_waiting relay_world = None \<and>
   handle_message_forwarding (relay_sched_waiting @ [Waiter]) relay_world =
     Some (cancel_pending (relay_world_final\<lparr>a2c_task := Running\<rparr>))"
proof -
  let ?v = "relay_world_final\<lparr>a2c_task := Running\<rparr>"
  have len: "length (client_in relay_world) < count_list relay_sched ClientToAzure"
    by (simp add: relay_world_def initial_world_def relay_sched_def)
  have fin: "c2a_task relay_world_final = Finished \<and> a2c_task relay_world_final = Cancelled"
    by (simp add: relay_world_final_def)
  have none: "handle_message_forwarding relay_sched_waiting relay_world = None"
    and v: "?v = last (relay_trace relay_sched_waiting
                        (relay_world\<lparr>c2a_task := Running, a2c_task := Running\<rparr>))"
    using relay_world_waiting by simp_all
  have f: "c2a_task ?v = Finished \<or> a2c_task ?v = Finished"
    by (simp add: relay_world_final_def)
  from relay_cancels_sibling [of relay_sched relay_world relay_world_final "[]" ?v,
      THEN conjunct2, THEN conjunct1] len
  have ret: "handle_message_forwarding (relay_sched @ [Waiter]) relay_world \<noteq> None" by simp
  have hyp: "handle_message_forwarding relay_sched_waiting relay_world = None \<and>
     ?v = last (relay_trace relay_sched_waiting
                 (relay_world\<lparr>c2a_task := Running, a2c_task := Running\<rparr>)) \<and>
     (c2a_task ?v = Finished \<or> a2c_task ?v = Finished)"
    by (intro conjI none v f)
  from relay_cancels_sibling [of relay_sched_waiting relay_world relay_world_final "[]" ?v,
      THEN conjunct2, THEN conjunct2, THEN mp, OF hyp]
  have at_once: "handle_message_forwarding (relay_sched_waiting @ [Waiter]) relay_world =
     Some (cancel_pending ?v)" by (elim conjE)
  from relay_world_run len fin ret none at_once show ?thesis by (elim conjE, intro conjI)
qed

section \<open>Completeness of the relay\<close>

lemma c2a_step_keeps_client_budget:
  "client_budget (c2a_task_step w) = client_budget w"
  by (auto simp: c2a_task_step_def c2a_iteration_def client_receive_def azure_send_def
           split: list.splits recv.splits sum.splits)

lemma a2c_step_keeps_azure_budget:
  "azure_budget (a2c_task_step w) = azure_budget w"
  by (auto simp: a2c_task_step_def a2c_iteration_def client_send_def Let_def
           split: list.splits sum.splits)

lemma c2a_step_complete:
  assumes "c2a_task w = Running"
    and "accepts (azure_budget w) (length (leading_frames (client_in w)))"
  shows "(c2a_task (c2a_task_step w) = Running \<and>
          (\<exists>f. client_in w = Recv f # client_in (c2a_task_step w) \<and>
               azure_out (c2a_task_step w) = azure_out w @ [Raw f]) \<and>
          accepts (azure_budget (c2a_task_step w))
            (length (leading_frames (client_in (c2a_task_step w))))) \<or>
         (c2a_task (c2a_task_step w) = Finished \<and> leading_frames (client_in w) = [] \<and>
          azure_out (c2a_task_step w) = azure_out w)"
proof (cases "client_in w")
  case Nil
  then show ?thesis
    by (simp add: c2a_task_step_def c2a_iteration_def client_receive_def)
next
  case (Cons r rest)
  show ?thesis
  proof (cases r)
    case (Recv f)
    with Cons assms(2) have "accepts (azure_budget w) (Suc (length (leading_frames rest)))"
      by simp
    from spend_accepts [OF this] obtain b where
      b: "spend (azure_budget w) = Inr b" "accepts b (length (leading_frames rest))" by blast
    with Cons Recv assms(1) show ?thesis
      by (simp add: c2a_task_step_def c2a_iteration_def client_receive_def azure_send_def)
  next
    case RecvNone
    with Cons show ?thesis
      by (simp add: c2a_task_step_def c2a_iteration_def client_receive_def)
  next
    case (RecvRaise e)
    with Cons show ?thesis
      by (simp add: c2a_task_step_def c2a_iteration_def client_receive_def)
  qed
qed

lemma a2c_step_complete:
  assumes "a2c_task w = Running"
    and "accepts (client_budget w) (length (azure_in w))"
  shows "(a2c_task (a2c_task_step w) = Running \<and>
          (\<exists>f. azure_in w = f # azure_in (a2c_task_step w) \<and>
               client_out (a2c_task_step w) = client_out w @ [Raw f]) \<and>
          accepts (client_budget (a2c_task_step w)) (length (azure_in (a2c_task_step w)))) \<or>
         (a2c_task (a2c_task_step w) = Finished \<and> azure_in w = [] \<and>
          client_out (a2c_task_step w) = client_out w)"
proof (cases "azure_in w")
  case Nil
  then show ?thesis by (simp add: a2c_task_step_def a2c_iteration_def)
next
  case (Cons f rest)
  with assms(2) have "accepts (client_budget w) (Suc (length rest))" by simp
  from spend_accepts [OF this] obtain b where
    b: "spend (client_budget w) = Inr b" "accepts b (length rest)" by blast
  with Cons assms(1) show ?thesis
    by (simp add: a2c_task_step_def a2c_iteration_def client_send_def)
qed

lemma run_relay_complete_c2a:
  "run_relay ts w = Some w' \<Longrightarrow> c2a_task w = Running \<Longrightarrow> c2a_task w' = Finished \<Longrightarrow>
   accepts (azure_budget w) (length (leading_frames (client_in w))) \<Longrightarrow>
   azure_out w' = azure_out w @ map Raw (leading_frames (client_in w))"
proof (induction ts w rule: run_relay.induct)
  case (1 w)
  then show ?case by simp
next
  case (2 ts w)
  let ?w1 = "c2a_task_step w"
  from "2.prems" have run: "run_relay ts ?w1 = Some w'" by simp
  from c2a_step_complete [OF "2.prems"(2) "2.prems"(4)]
  consider (go) f where "c2a_task ?w1 = Running" "client_in w = Recv f # client_in ?w1"
      "azure_out ?w1 = azure_out w @ [Raw f]"
      "accepts (azure_budget ?w1) (length (leading_frames (client_in ?w1)))"
    | (stop) "c2a_task ?w1 = Finished" "leading_frames (client_in w) = []"
      "azure_out ?w1 = azure_out w"
    by blast
  then show ?case
  proof cases
    case go
    have "azure_out w' = azure_out ?w1 @ map Raw (leading_frames (client_in ?w1))"
      using "2.IH" run go(1) "2.prems"(3) go(4) "2.prems"(2) by simp
    with go(2,3) show ?thesis by simp
  next
    case stop
    from run_relay_upstream_prefix [OF run] stop(1) have "azure_out w' = azure_out ?w1" by simp
    with stop show ?thesis by simp
  qed
next
  case (3 ts w)
  show ?case
  proof (cases "a2c_task w = Running")
    case True
    with "3.prems" a2c_task_step_cases [OF True] a2c_step_keeps_azure_budget [of w] "3.IH"
    show ?thesis by simp
  next
    case False
    with 3 show ?thesis by simp
  qed
next
  case (4 ts w)
  show ?case
  proof (cases "c2a_task w = Finished \<or> a2c_task w = Finished")
    case True
    with "4.prems" show ?thesis by (auto simp: cancel_pending_def)
  next
    case False
    with 4 show ?thesis by simp
  qed
qed

lemma run_relay_complete_a2c:
  "run_relay ts w = Some w' \<Longrightarrow> a2c_task w = Running \<Longrightarrow> a2c_task w' = Finished \<Longrightarrow>
   accepts (client_budget w) (length (azure_in w)) \<Longrightarrow>
   client_out w' = client_out w @ map Raw (azure_in w)"
proof (induction ts w rule: run_relay.induct)
  case (1 w)
  then show ?case by simp
next
  case (3 ts w)
  let ?w1 = "a2c_task_step w"
  from "3.prems" have run: "run_relay ts ?w1 = Some w'" by simp
  from a2c_step_complete [OF "3.prems"(2) "3.prems"(4)]
  consider (go) f where "a2c_task ?w1 = Running" "azure_in w = f # azure_in ?w1"
      "client_out ?w1 = client_out w @ [Raw f]"
      "accepts (client_budget ?w1) (length (azure_in ?w1))"
    | (stop) "a2c_task ?w1 = Finished" "azure_in w = []" "client_out ?w1 = client_out w"
    by blast
  then show ?case
  proof cases
    case go
    have "client_out w' = client_out ?w1 @ map Raw (azure_in ?w1)"
      using "3.IH" run go(1) "3.prems"(3) go(4) "3.prems"(2) by simp
    with go(2,3) show ?thesis by simp
  next
    case stop
    from run_relay_client_prefix [OF run] stop(1) have "client_out w' = client_out ?w1" by simp
    with stop show ?thesis by simp
  qed
next
  case (2 ts w)
  show ?case
  proof (cases "c2a_task w = Running")
    case True
    with "2.prems" c2a_task_step_cases [OF True] c2a_step_keeps_client_budget [of w] "2.IH"
    show ?thesis by simp
  next
    case False
    with 2 show ?thesis by simp
  qed
next
  case (4 ts w)
  show ?case
  proof (cases "c2a_task w = Finished \<or> a2c_task w = Finished")
    case True
    with "4.prems" show ?thesis by (auto simp: cancel_pending_def)
  next
    case False
    with 4 show ?thesis by simp
  qed
qed

lemma leading_frames_split:
  "\<exists>rest. script = map Recv (leading_frames script) @ rest \<and> closes rest"
proof (induction script rule: leading_frames.induct)
  case (1 f rest)
  then show ?case by auto
qed (auto simp: closes_def)

lemma forwarding_complete_c2a:
  assumes "handle_message_forwarding ts w = Some w'" and "c2a_task w' = Finished"
    and "accepts (azure_budget w) (length (leading_frames (client_in w)))"
  shows "azure_out w' = azure_out w @ map Raw (leading_frames (client_in w)) \<and>
         azure_out w' = azure_out (forward_client_to_azure w)"
proof -
  have a: "azure_out w' = azure_out w @ map Raw (leading_frames (client_in w))"
    using run_relay_complete_c2a [of ts "w\<lparr>c2a_task := Running, a2c_task := Running\<rparr>" w'] assms
    by (simp add: handle_message_forwarding_def)
  obtain rest where "client_in w = map Recv (leading_frames (client_in w)) @ rest" "closes rest"
    using leading_frames_split by blast
  from forward_client_to_azure_all [OF assms(3) this]
  have "azure_out (forward_client_to_azure w) =
        azure_out w @ map Raw (leading_frames (client_in w))" .
  with a show ?thesis by simp
qed

lemma forwarding_complete_a2c:
  assumes "handle_message_forwarding ts w = Some w'" and "a2c_task w' = Finished"
    and "accepts (client_budget w) (length (azure_in w))"
  shows "client_out w' = client_out w @ map Raw (azure_in w) \<and>
         client_out w' = client_out (forward_azure_to_client w)"
proof -
  have a: "client_out w' = client_out w @ map Raw (azure_in w)"
    using run_relay_complete_a2c [of ts "w\<lparr>c2a_task := Running, a2c_task := Running\<rparr>" w'] assms
    by (simp add: handle_message_forwarding_def)
  from forward_azure_to_client_all [OF assms(3) refl]
  have "client_out (forward_azure_to_client w) = client_out w @ map Raw (azure_in w)" .
  with a show ?thesis by simp
qed

lemma trace_c2a_finished:
  "started w \<Longrightarrow> (c2a_task w = Running \<longrightarrow> length (client_in w) < count_list ts ClientToAzure)
   \<Longrightarrow> Waiter \<notin> set ts \<Longrightarrow>
   run_relay ts w = None \<and> c2a_task (last (relay_trace ts w)) = Finished"
proof (induction ts arbitrary: w)
  case Nil
  then show ?case by (auto simp: started_def)
next
  case (Cons t ts)
  show ?case
  proof (cases t)
    case ClientToAzure
    show ?thesis
    proof (cases "c2a_task w = Running")
      case True
      have st: "started (c2a_task_step w)" using Cons.prems(1) True by (rule started_c2a_step)
      have "c2a_task (c2a_task_step w) = Running \<longrightarrow>
            length (client_in (c2a_task_step w)) < count_list ts ClientToAzure"
        using c2a_task_step_cases [OF True] Cons.prems(2) True ClientToAzure by auto
      with st Cons.prems(3)
      have "run_relay ts (c2a_task_step w) = None \<and>
            c2a_task (last (relay_trace ts (c2a_task_step w))) = Finished"
        by (intro Cons.IH) auto
      with True ClientToAzure show ?thesis by (simp add: relay_trace_nonempty)
    next
      case False
      with Cons.prems have "run_relay ts w = None \<and> c2a_task (last (relay_trace ts w)) = Finished"
        by (intro Cons.IH) auto
      with False ClientToAzure show ?thesis by (simp add: relay_trace_nonempty)
    qed
  next
    case AzureToClient
    show ?thesis
    proof (cases "a2c_task w = Running")
      case True
      have st: "started (a2c_task_step w)" using Cons.prems(1) True by (rule started_a2c_step)
      have "c2a_task (a2c_task_step w) = Running \<longrightarrow>
            length (client_in (a2c_task_step w)) < count_list ts ClientToAzure"
        using a2c_task_step_cases [OF True] Cons.prems(2) AzureToClient by auto
      with st Cons.prems(3)
      have "run_relay ts (a2c_task_step w) = None \<and>
            c2a_task (last (relay_trace ts (a2c_task_step w))) = Finished"
        by (intro Cons.IH) auto
      with True AzureToClient show ?thesis by (simp add: relay_trace_nonempty)
    next
      case False
      have "run_relay ts w = None \<and> c2a_task (last (relay_trace ts w)) = Finished"
        using Cons.prems AzureToClient by (intro Cons.IH) auto
      with False AzureToClient show ?thesis by (simp add: relay_trace_nonempty)
    qed
  next
    case Waiter
    with Cons.prems(3) show ?thesis by simp
  qed
qed

lemma trace_a2c_finished:
  "started w \<Longrightarrow> (a2c_task w = Running \<longrightarrow> length (azure_in w) < count_list ts AzureToClient)
   \<Longrightarrow> Waiter \<notin> set ts \<Longrightarrow>
   run_relay ts w = None \<and> a2c_task (last (relay_trace ts w)) = Finished"
proof (induction ts arbitrary: w)
  case Nil
  then show ?case by (auto simp: started_def)
next
  case (Cons t ts)
  show ?case
  proof (cases t)
    case AzureToClient
    show ?thesis
    proof (cases "a2c_task w = Running")
      case True
      have st: "started (a2c_task_step w)" using Cons.prems(1) True by (rule started_a2c_step)
      have "a2c_task (a2c_task_step w) = Running \<longrightarrow>
            length (azure_in (a2c_task_step w)) < count_list ts AzureToClient"
        using a2c_task_step_cases [OF True] Cons.prems(2) True AzureToClient by auto
      with st Cons.prems(3)
      have "run_relay ts (a2c_task_step w) = None \<and>
            a2c_task (last (relay_trace ts (a2c_task_step w))) = Finished"
        by (intro Cons.IH) auto
      with True AzureToClient show ?thesis by (simp add: relay_trace_nonempty)
    next
      case False
      with Cons.prems have "run_relay ts w = None \<and> a2c_task (last (relay_trace ts w)) = Finished"
        by (intro Cons.IH) auto
      with False AzureToClient show ?thesis by (simp add: relay_trace_nonempty)
    qed
  next
    case ClientToAzure
    show ?thesis
    proof (cases "c2a_task w = Running")
      case True
      have st: "started (c2a_task_step w)" using Cons.prems(1) True by (rule started_c2a_step)
      have "a2c_task (c2a_task_step w) = Running \<longrightarrow>
            length (azure_in (c2a_task_step w)) < count_list ts AzureToClient"
        using c2a_task_step_cases [OF True] Cons.prems(2) ClientToAzure by auto
      with st Cons.prems(3)
      have "run_relay ts (c2a_task_step w) = None \<and>
            a2c_task (last (relay_trace ts (c2a_task_step w))) = Finished"
        by (intro Cons.IH) auto
      with True ClientToAzure show ?thesis by (simp add: relay_trace_nonempty)
    next
      case False
      have "run_relay ts w = None \<and> a2c_task (last (relay_trace ts w)) = Finished"
        using Cons.prems ClientToAzure by (intro Cons.IH) auto
      with False ClientToAzure show ?thesis by (simp add: relay_trace_nonempty)
    qed
  next
    case Waiter
    with Cons.prems(3) show ?thesis by simp
  qed
qed

lemma forwarding_delivers_c2a:
  assumes "Waiter \<notin> set ts" and "length (client_in w) < count_list ts ClientToAzure"
    and "accepts (azure_budget w) (length (leading_frames (client_in w)))"
  shows "\<exists>w'. handle_message_forwarding (ts @ [Waiter]) w = Some w' \<and> c2a_task w' = Finished \<and>
              azure_out w' = azure_out w @ map Raw (leading_frames (client_in w))"
proof -
  let ?w0 = "w\<lparr>c2a_task := Running, a2c_task := Running\<rparr>"
  let ?v = "last (relay_trace ts ?w0)"
  from trace_c2a_finished [OF started_forwarding, of w ts] assms(1,2)
  have n: "run_relay ts ?w0 = None" and f: "c2a_task ?v = Finished" by simp_all
  have "run_relay (ts @ [Waiter]) ?w0 = run_relay [Waiter] ?v"
    by (rule run_relay_append [OF n])
  with f have r: "handle_message_forwarding (ts @ [Waiter]) w = Some (cancel_pending ?v)"
    by (simp add: handle_message_forwarding_def)
  from f have c: "c2a_task (cancel_pending ?v) = Finished" by (simp add: cancel_pending_def)
  from forwarding_complete_c2a [OF r c assms(3)] r c show ?thesis by blast
qed

lemma forwarding_delivers_a2c:
  assumes "Waiter \<notin> set ts" and "length (azure_in w) < count_list ts AzureToClient"
    and "accepts (client_budget w) (length (azure_in w))"
  shows "\<exists>w'. handle_message_forwarding (ts @ [Waiter]) w = Some w' \<and> a2c_task w' = Finished \<and>
              client_out w' = client_out w @ map Raw (azure_in w)"
proof -
  let ?w0 = "w\<lparr>c2a_task := Running, a2c_task := Running\<rparr>"
  let ?v = "last (relay_trace ts ?w0)"
  from trace_a2c_finished [OF started_forwarding, of w ts] assms(1,2)
  have n: "run_relay ts ?w0 = None" and f: "a2c_task ?v = Finished" by simp_all
  have "run_relay (ts @ [Waiter]) ?w0 = run_relay [Waiter] ?v"
    by (rule run_relay_append [OF n])
  with f have r: "handle_message_forwarding (ts @ [Waiter]) w = Some (cancel_pending ?v)"
    by (simp add: handle_message_forwarding_def)
  from f have c: "a2c_task (cancel_pending ?v) = Finished" by (simp add: cancel_pending_def)
  from forwarding_complete_a2c [OF r c assms(3)] r c show ?thesis by blast
qed

text \<open>
  C4. Each forwarding loop, run until the stream it reads ends, writes to the other
  side exactly the frames it read, unchanged and in their order, as long as the other
  side accepts that many writes; this holds for client to upstream and for upstream
  to client. Inside the relay, under every schedule, what has been written to either
  side when the relay returns is the frames of an initial segment of the other side's
  stream, unchanged and in their order. When the relay returns with the
  client-to-upstream task finished and the upstream accepts the writes, every frame
  the client sent before its stream ended has been written upstream, which is what
  the loop run on its own writes; the same holds from upstream to client. And under
  every schedule that gives the client-to-upstream task more turns than the client's
  stream has entries and then the waiter its turn, the relay returns with that task
  finished and all those frames written upstream; the same holds from upstream to
  client.
\<close>

theorem relay_forwards_all_in_order:
  "(accepts (azure_budget w) (length msgs) \<longrightarrow> client_in w = map Recv msgs @ rest \<longrightarrow>
      closes rest \<longrightarrow> azure_out (forward_client_to_azure w) = azure_out w @ map Raw msgs) \<and>
   (accepts (client_budget w) (length msgs) \<longrightarrow> azure_in w = msgs \<longrightarrow>
      client_out (forward_azure_to_client w) = client_out w @ map Raw msgs) \<and>
   (handle_message_forwarding ts w = Some w' \<longrightarrow>
      (\<exists>k. azure_out w' = azure_out w @ map Raw (take k (leading_frames (client_in w)))) \<and>
      (\<exists>k. client_out w' = client_out w @ map Raw (take k (azure_in w)))) \<and>
   (handle_message_forwarding ts w = Some w' \<and> c2a_task w' = Finished \<and>
    accepts (azure_budget w) (length (leading_frames (client_in w))) \<longrightarrow>
      azure_out w' = azure_out w @ map Raw (leading_frames (client_in w)) \<and>
      azure_out w' = azure_out (forward_client_to_azure w)) \<and>
   (handle_message_forwarding ts w = Some w' \<and> a2c_task w' = Finished \<and>
    accepts (client_budget w) (length (azure_in w)) \<longrightarrow>
      client_out w' = client_out w @ map Raw (azure_in w) \<and>
      client_out w' = client_out (forward_azure_to_client w)) \<and>
   (Waiter \<notin> set ts \<and> length (client_in w) < count_list ts ClientToAzure \<and>
    accepts (azure_budget w) (length (leading_frames (client_in w))) \<longrightarrow>
      (\<exists>v. handle_message_forwarding (ts @ [Waiter]) w = Some v \<and> c2a_task v = Finished \<and>
           azure_out v = azure_out w @ map Raw (leading_frames (client_in w)))) \<and>
   (Waiter \<notin> set ts \<and> length (azure_in w) < count_list ts AzureToClient \<and>
    accepts (client_budget w) (length (azure_in w)) \<longrightarrow>
      (\<exists>v. handle_message_forwarding (ts @ [Waiter]) w = Some v \<and> a2c_task v = Finished \<and>
           client_out v = client_out w @ map Raw (azure_in w)))"
proof (intro conjI impI)
  assume "accepts (azure_budget w) (length msgs)" "client_in w = map Recv msgs @ rest" "closes rest"
  then show "azure_out (forward_client_to_azure w) = azure_out w @ map Raw msgs"
    by (rule forward_client_to_azure_all)
next
  assume "accepts (client_budget w) (length msgs)" "azure_in w = msgs"
  then show "client_out (forward_azure_to_client w) = client_out w @ map Raw msgs"
    by (rule forward_azure_to_client_all)
next
  assume "handle_message_forwarding ts w = Some w'"
  then show "\<exists>k. azure_out w' = azure_out w @ map Raw (take k (leading_frames (client_in w)))"
    by (rule forwarding_upstream_prefix)
next
  assume "handle_message_forwarding ts w = Some w'"
  then show "\<exists>k. client_out w' = client_out w @ map Raw (take k (azure_in w))"
    by (rule forwarding_client_prefix)
next
  assume a: "handle_message_forwarding ts w = Some w' \<and> c2a_task w' = Finished \<and>
    accepts (azure_budget w) (length (leading_frames (client_in w)))"
  then have "azure_out w' = azure_out w @ map Raw (leading_frames (client_in w)) \<and>
             azure_out w' = azure_out (forward_client_to_azure w)"
    by (elim conjE) (rule forwarding_complete_c2a; assumption)
  then show "azure_out w' = azure_out w @ map Raw (leading_frames (client_in w))"
    by (rule conjunct1)
next
  assume a: "handle_message_forwarding ts w = Some w' \<and> c2a_task w' = Finished \<and>
    accepts (azure_budget w) (length (leading_frames (client_in w)))"
  then have "azure_out w' = azure_out w @ map Raw (leading_frames (client_in w)) \<and>
             azure_out w' = azure_out (forward_client_to_azure w)"
    by (elim conjE) (rule forwarding_complete_c2a; assumption)
  then show "azure_out w' = azure_out (forward_client_to_azure w)"
    by (rule conjunct2)
next
  assume a: "handle_message_forwarding ts w = Some w' \<and> a2c_task w' = Finished \<and>
    accepts (client_budget w) (length (azure_in w))"
  then have "client_out w' = client_out w @ map Raw (azure_in w) \<and>
             client_out w' = client_out (forward_azure_to_client w)"
    by (elim conjE) (rule forwarding_complete_a2c; assumption)
  then show "client_out w' = client_out w @ map Raw (azure_in w)"
    by (rule conjunct1)
next
  assume a: "handle_message_forwarding ts w = Some w' \<and> a2c_task w' = Finished \<and>
    accepts (client_budget w) (length (azure_in w))"
  then have "client_out w' = client_out w @ map Raw (azure_in w) \<and>
             client_out w' = client_out (forward_azure_to_client w)"
    by (elim conjE) (rule forwarding_complete_a2c; assumption)
  then show "client_out w' = client_out (forward_azure_to_client w)"
    by (rule conjunct2)
next
  assume "Waiter \<notin> set ts \<and> length (client_in w) < count_list ts ClientToAzure \<and>
    accepts (azure_budget w) (length (leading_frames (client_in w)))"
  then show "\<exists>v. handle_message_forwarding (ts @ [Waiter]) w = Some v \<and> c2a_task v = Finished \<and>
           azure_out v = azure_out w @ map Raw (leading_frames (client_in w))"
    by (elim conjE) (rule forwarding_delivers_c2a; assumption)
next
  assume "Waiter \<notin> set ts \<and> length (azure_in w) < count_list ts AzureToClient \<and>
    accepts (client_budget w) (length (azure_in w))"
  then show "\<exists>v. handle_message_forwarding (ts @ [Waiter]) w = Some v \<and> a2c_task v = Finished \<and>
           client_out v = client_out w @ map Raw (azure_in w)"
    by (elim conjE) (rule forwarding_delivers_a2c; assumption)
qed

theorem relay_forwards_all_in_order_witness:
  "azure_out (forward_client_to_azure relay_world) = map Raw [Text ''a'', Binary ''b''] \<and>
   client_out (forward_azure_to_client relay_world) = map Raw [Text ''x'', Text ''y''] \<and>
   handle_message_forwarding relay_sched relay_world = Some relay_world_final \<and>
   (\<exists>k. azure_out relay_world_final =
           map Raw (take k (leading_frames (client_in relay_world)))) \<and>
   (\<exists>k. client_out relay_world_final = map Raw (take k (azure_in relay_world))) \<and>
   azure_out relay_world_final = map Raw [Text ''a'', Binary ''b''] \<and>
   azure_out relay_world_final = azure_out (forward_client_to_azure relay_world) \<and>
   handle_message_forwarding relay_sched_upstream relay_world = Some relay_world_upstream_final \<and>
   client_out relay_world_upstream_final = map Raw [Text ''x'', Text ''y''] \<and>
   client_out relay_world_upstream_final = client_out (forward_azure_to_client relay_world) \<and>
   (\<exists>v. handle_message_forwarding (relay_sched_waiting @ [Waiter]) relay_world = Some v \<and>
        c2a_task v = Finished \<and>
        azure_out v =
          azure_out relay_world @ map Raw (leading_frames (client_in relay_world))) \<and>
   (\<exists>v. handle_message_forwarding
          ([AzureToClient, ClientToAzure, AzureToClient, AzureToClient] @ [Waiter])
          relay_world = Some v \<and>
        a2c_task v = Finished \<and>
        client_out v = client_out relay_world @ map Raw (azure_in relay_world))"
proof -
  have h1: "accepts (azure_budget relay_world) (length [Text ''a'', Binary ''b''])"
    and h2: "client_in relay_world = map Recv [Text ''a'', Binary ''b''] @ [RecvNone]"
    and h3: "closes [RecvNone]"
    and h4: "accepts (client_budget relay_world) (length [Text ''x'', Text ''y''])"
    and h5: "azure_in relay_world = [Text ''x'', Text ''y'']"
    and h6: "azure_out relay_world = []" "client_out relay_world = []"
    and h7: "leading_frames (client_in relay_world) = [Text ''a'', Binary ''b'']"
    by (simp_all add: relay_world_def initial_world_def accepts_def closes_def)
  have hd: "handle_message_forwarding relay_sched relay_world = Some relay_world_final \<and>
            c2a_task relay_world_final = Finished \<and>
            accepts (azure_budget relay_world) (length (leading_frames (client_in relay_world)))"
    using relay_world_run
    by (simp add: relay_world_final_def relay_world_def initial_world_def accepts_def)
  have he: "handle_message_forwarding relay_sched_upstream relay_world =
              Some relay_world_upstream_final \<and>
            a2c_task relay_world_upstream_final = Finished \<and>
            accepts (client_budget relay_world) (length (azure_in relay_world))"
    using relay_world_run_upstream
    by (simp add: relay_world_upstream_final_def relay_world_def initial_world_def accepts_def)
  from relay_forwards_all_in_order [of relay_world "[Text ''a'', Binary ''b'']" "[RecvNone]",
      THEN conjunct1, THEN mp, OF h1, THEN mp, OF h2, THEN mp, OF h3] h6
  have a: "azure_out (forward_client_to_azure relay_world) = map Raw [Text ''a'', Binary ''b'']"
    by simp
  from relay_forwards_all_in_order [of relay_world "[Text ''x'', Text ''y'']",
      THEN conjunct2, THEN conjunct1, THEN mp, OF h4, THEN mp, OF h5] h6
  have b: "client_out (forward_azure_to_client relay_world) = map Raw [Text ''x'', Text ''y'']"
    by simp
  note inst = relay_forwards_all_in_order [of relay_world _ _ relay_sched relay_world_final]
  from inst [THEN conjunct2, THEN conjunct2, THEN conjunct1, THEN mp, OF relay_world_run] h6
  have c1: "\<exists>k. azure_out relay_world_final =
              map Raw (take k (leading_frames (client_in relay_world)))"
    and c2: "\<exists>k. client_out relay_world_final = map Raw (take k (azure_in relay_world))"
    by simp_all
  from inst [THEN conjunct2, THEN conjunct2, THEN conjunct2, THEN conjunct1, THEN mp, OF hd]
  have d: "azure_out relay_world_final =
             azure_out relay_world @ map Raw (leading_frames (client_in relay_world))"
    and d2: "azure_out relay_world_final = azure_out (forward_client_to_azure relay_world)"
    by (rule conjunct1, rule conjunct2)
  from d h6 h7 have d1: "azure_out relay_world_final = map Raw [Text ''a'', Binary ''b'']"
    by simp
  from relay_forwards_all_in_order
         [of relay_world _ _ relay_sched_upstream relay_world_upstream_final,
          THEN conjunct2, THEN conjunct2, THEN conjunct2, THEN conjunct2, THEN conjunct1,
          THEN mp, OF he]
  have e: "client_out relay_world_upstream_final =
             client_out relay_world @ map Raw (azure_in relay_world)"
    and e2: "client_out relay_world_upstream_final =
             client_out (forward_azure_to_client relay_world)"
    by (rule conjunct1, rule conjunct2)
  from e h5 h6 have e1: "client_out relay_world_upstream_final = map Raw [Text ''x'', Text ''y'']"
    by simp
  have hf: "Waiter \<notin> set relay_sched_waiting \<and>
            length (client_in relay_world) < count_list relay_sched_waiting ClientToAzure \<and>
            accepts (azure_budget relay_world) (length (leading_frames (client_in relay_world)))"
    by (simp add: relay_sched_waiting_def relay_world_def initial_world_def accepts_def)
  have hg: "Waiter \<notin> set [AzureToClient, ClientToAzure, AzureToClient, AzureToClient] \<and>
            length (azure_in relay_world) <
              count_list [AzureToClient, ClientToAzure, AzureToClient, AzureToClient] AzureToClient \<and>
            accepts (client_budget relay_world) (length (azure_in relay_world))"
    by (simp add: relay_world_def initial_world_def accepts_def)
  note f = relay_forwards_all_in_order [of relay_world _ _ relay_sched_waiting,
      THEN conjunct2, THEN conjunct2, THEN conjunct2, THEN conjunct2, THEN conjunct2,
      THEN conjunct1, THEN mp, OF hf]
  note g = relay_forwards_all_in_order
      [of relay_world _ _ "[AzureToClient, ClientToAzure, AzureToClient, AzureToClient]",
       THEN conjunct2, THEN conjunct2, THEN conjunct2, THEN conjunct2, THEN conjunct2,
       THEN conjunct2, THEN mp, OF hg]
  show ?thesis
    by (intro conjI) (fact a b relay_world_run c1 c2 d1 d2 relay_world_run_upstream e1 e2 f g)+
qed

section \<open>The connector for every agent id and every profile\<close>

lemma resolve_hashable:
  "\<not> truthy agent_id \<or> hashable agent_id \<Longrightarrow>
   \<exists>profile. (if truthy agent_id then get_agent m agent_id else Inr None) = Inr profile"
  by (cases agent_id) (auto simp: get_agent_def hashable_def)

lemma resolve_unhashable:
  "truthy agent_id \<and> \<not> hashable agent_id \<Longrightarrow>
   get_agent m agent_id = Inl TypeError \<and> connect_to_azure E agent_id w = (False, w)"
  by (cases agent_id) (auto simp: get_agent_def hashable_def connect_to_azure_def)

lemma serialisable_defaults: "serialisable defaults_message"
  by (simp add: defaults_message_def default_session_def)

lemma serialisable_local_message:
  "serialisable (PDict [(''type'', PStr ''session.update''),
                        (''session'', PDict (default_session @
                           [(''model'', M), (''instructions'', I), (''temperature'', T),
                            (''max_response_output_tokens'', K)]))]) =
     (serialisable M \<and> serialisable I \<and> serialisable T \<and> serialisable K)"
  by (simp add: default_session_def)

lemma connect_sends:
  assumes "(if truthy agent_id then get_agent (manager E) agent_id else Inr None) = Inr profile"
    and "initial_config_message (cfg E) profile = Inr message"
    and "azure_openai_api_key (cfg E) \<noteq> []"
    and "net E = Inr (frames, budget)" and "accepts budget 1" and "serialisable message"
  shows "fst (connect_to_azure E agent_id w) \<and>
         azure_out (snd (connect_to_azure E agent_id w)) = [JsonDumps message] \<and>
         azure_opened (snd (connect_to_azure E agent_id w)) = Suc (azure_opened w)"
proof -
  from assms(5) have "accepts budget (Suc 0)" by simp
  from spend_accepts [OF this] obtain b where b: "spend budget = Inr b" by blast
  with assms(1-4,6) show ?thesis
    by (simp add: connect_to_azure_def websockets_connect_def Let_def send_initial_config_def
          json_dumps_def azure_send_def)
qed

lemma connect_unserialisable:
  assumes "(if truthy agent_id then get_agent (manager E) agent_id else Inr None) = Inr profile"
    and "initial_config_message (cfg E) profile = Inr message"
    and "\<not> serialisable message"
  shows "\<not> fst (connect_to_azure E agent_id w) \<and>
         (azure_out (snd (connect_to_azure E agent_id w)) = azure_out w \<or>
          azure_out (snd (connect_to_azure E agent_id w)) = [])"
  using assms
  by (auto simp: connect_to_azure_def websockets_connect_def Let_def send_initial_config_def
        json_dumps_def split: sum.splits prod.splits option.splits)

lemma connect_success_serialisable:
  assumes "(if truthy agent_id then get_agent (manager E) agent_id else Inr None) = Inr profile"
    and "initial_config_message (cfg E) profile = Inr message"
    and "connect_to_azure E agent_id w = (True, w')"
  shows "serialisable message \<and> azure_out w' = [JsonDumps message]"
  using assms
  by (auto simp: connect_to_azure_def websockets_connect_def Let_def azure_send_def
        send_initial_config_def json_dumps_def
        split: sum.splits prod.splits option.splits if_splits)

lemma dated_create:
  "create_agent demo_cfg (Inl AzureServiceError) ''89abcdef0123'' 0 ''s2'' dated_scenario
     (agent_manager_init demo_cfg False False) = Inr (''local-agent-s2-89abcdef'', dated_manager)"
  by (simp add: create_agent_def dated_scenario_def dict_get_def py_first_def py_get_def
        py_add_str_def agent_manager_init_def create_local_agent_def dated_manager_def
        dated_profile_def demo_cfg_fields Let_def)

lemma dated_reachable: "reachable demo_cfg dated_manager"
  by (rule reachable.created [OF reachable.init dated_create])

text \<open>
  C6, as stated, does not hold for every agent id that is not in the registry. The
  client below names its agent by the JSON array \<open>["unknown-id"]\<close>; the credential
  is set. The lookup in the registry raises \<open>TypeError\<close> (a list is unhashable),
  the connector returns no socket without building a URL or calling
  \<open>websockets.connect\<close>, and the session ends with the error frames: the default
  route is not taken.
\<close>

theorem list_agent_id_no_fallback:
  "agents (manager list_id_deps) ''unknown-id'' = None \<and>
   azure_openai_api_key (cfg list_id_deps) = ''secret'' \<and>
   fst (get_agent_id_from_client list_id_deps
          (initial_world [Recv (Text list_handshake_text)] None)) = PList [PStr ''unknown-id''] \<and>
   get_agent (manager list_id_deps) (PList [PStr ''unknown-id'']) = Inl TypeError \<and>
   handle_connection list_id_deps (initial_world [Recv (Text list_handshake_text)] None) =
     Some ((initial_world [] None)
             \<lparr>client_out := [JsonDumps (error_frame ''Failed to connect to Azure Voice API''),
                             JsonDumps (error_frame ''Failed to connect to Azure Voice API'')]\<rparr>) \<and>
   connect_attempts ((initial_world [] None)
             \<lparr>client_out := [JsonDumps (error_frame ''Failed to connect to Azure Voice API''),
                             JsonDumps (error_frame ''Failed to connect to Azure Voice API'')]\<rparr>) = []"
  by (simp add: handle_connection_def list_id_deps_def demo_deps_def get_agent_id_from_client_def
        client_receive_def initial_world_def frame_truthy_def list_json_loads_def
        list_handshake_text_def q_def dquote_def py_get_def dict_get_def
        demo_manager_def agent_manager_init_def demo_cfg_fields get_agent_def
        connect_to_azure_def Let_def
        send_error_def send_message_def json_dumps_error_frame client_send_def spend_def)

text \<open>
  C6, amended. For every agent id that is falsy or hashable (a JSON string, number,
  boolean or \<open>null\<close>, or an empty array or object) the lookup returns, and the
  URL the connector builds is the base URL followed by one routing parameter:
  \<open>&agent-id=\<close> with the session's agent id for a resolved profile that is
  Azure-hosted, \<open>&model=\<close> with the profile's model for a resolved local profile,
  and without a profile \<open>&agent-id=\<close> with the configured default agent id if
  there is one, \<open>&model=\<close> with the configured default model otherwise. An agent
  id that is not in the registry resolves to no profile. A resolved profile comes
  from the registry under the session's agent id and has a boolean flag, so the four
  cases are all there are. With a credential, this URL is the one
  \<open>websockets.connect\<close> is called with. For an agent id that is a non-empty
  array or object the lookup raises and the connector returns no socket and leaves
  the world as it was.
\<close>

theorem upstream_url_routing:
  assumes "reachable (cfg E) (manager E)"
  shows "(\<not> truthy agent_id \<or> hashable agent_id \<longrightarrow>
          (\<exists>profile route.
             (if truthy agent_id then get_agent (manager E) agent_id else Inr None) = Inr profile \<and>
             build_azure_url E agent_id profile = base_url E @ route \<and>
             (\<forall>s d. agent_id = PStr s \<and> profile = Some d \<and>
                    map_of d ''is_azure_agent'' = Some (PBool True) \<longrightarrow>
                    route = ''&agent-id='' @ s) \<and>
             (\<forall>d. profile = Some d \<and> map_of d ''is_azure_agent'' = Some (PBool False) \<longrightarrow>
                  (\<exists>M. map_of d ''model'' = Some M \<and>
                       route = ''&model='' @ py_format (fmt E) M)) \<and>
             (profile = None \<and> agent_id_cfg (cfg E) \<noteq> [] \<longrightarrow>
                route = ''&agent-id='' @ agent_id_cfg (cfg E)) \<and>
             (profile = None \<and> agent_id_cfg (cfg E) = [] \<longrightarrow>
                route = ''&model='' @ model_deployment_name (cfg E)) \<and>
             (\<forall>s. agent_id = PStr s \<and> agents (manager E) s = None \<longrightarrow> profile = None) \<and>
             (\<forall>d. profile = Some d \<longrightarrow>
                  (\<exists>b. map_of d ''is_azure_agent'' = Some (PBool b)) \<and>
                  (\<exists>s. agent_id = PStr s \<and> agents (manager E) s = Some d)) \<and>
             (azure_openai_api_key (cfg E) \<noteq> [] \<longrightarrow>
                connect_attempts (snd (connect_to_azure E agent_id w)) =
                  connect_attempts w @
                  [(build_azure_url E agent_id profile,
                    [(''api-key'', azure_openai_api_key (cfg E))])]))) \<and>
         (truthy agent_id \<and> \<not> hashable agent_id \<longrightarrow>
            get_agent (manager E) agent_id = Inl TypeError \<and>
            connect_to_azure E agent_id w = (False, w))"
proof (intro conjI impI)
  assume "\<not> truthy agent_id \<or> hashable agent_id"
  from resolve_hashable [OF this] obtain profile where
    r: "(if truthy agent_id then get_agent (manager E) agent_id else Inr None) = Inr profile"
    by blast
  from url_routing_resolved [OF assms r, of w] r
  show "\<exists>profile route.
             (if truthy agent_id then get_agent (manager E) agent_id else Inr None) = Inr profile \<and>
             build_azure_url E agent_id profile = base_url E @ route \<and>
             (\<forall>s d. agent_id = PStr s \<and> profile = Some d \<and>
                    map_of d ''is_azure_agent'' = Some (PBool True) \<longrightarrow>
                    route = ''&agent-id='' @ s) \<and>
             (\<forall>d. profile = Some d \<and> map_of d ''is_azure_agent'' = Some (PBool False) \<longrightarrow>
                  (\<exists>M. map_of d ''model'' = Some M \<and>
                       route = ''&model='' @ py_format (fmt E) M)) \<and>
             (profile = None \<and> agent_id_cfg (cfg E) \<noteq> [] \<longrightarrow>
                route = ''&agent-id='' @ agent_id_cfg (cfg E)) \<and>
             (profile = None \<and> agent_id_cfg (cfg E) = [] \<longrightarrow>
                route = ''&model='' @ model_deployment_name (cfg E)) \<and>
             (\<forall>s. agent_id = PStr s \<and> agents (manager E) s = None \<longrightarrow> profile = None) \<and>
             (\<forall>d. profile = Some d \<longrightarrow>
                  (\<exists>b. map_of d ''is_azure_agent'' = Some (PBool b)) \<and>
                  (\<exists>s. agent_id = PStr s \<and> agents (manager E) s = Some d)) \<and>
             (azure_openai_api_key (cfg E) \<noteq> [] \<longrightarrow>
                connect_attempts (snd (connect_to_azure E agent_id w)) =
                  connect_attempts w @
                  [(build_azure_url E agent_id profile,
                    [(''api-key'', azure_openai_api_key (cfg E))])])"
    by blast
next
  assume u: "truthy agent_id \<and> \<not> hashable agent_id"
  from resolve_unhashable [OF u] show "get_agent (manager E) agent_id = Inl TypeError" by blast
next
  assume u: "truthy agent_id \<and> \<not> hashable agent_id"
  from resolve_unhashable [OF u] show "connect_to_azure E agent_id w = (False, w)" by blast
qed

theorem upstream_url_routing_witness:
  "build_azure_url demo_deps (PStr ''local-agent-s1-0123abcd'') (Some demo_local_profile) =
     base_url demo_deps @ ''&model=gpt-4o-mini'' \<and>
   build_azure_url azure_deps (PStr ''asst_42'') (Some demo_azure_profile) =
     base_url azure_deps @ ''&agent-id=asst_42'' \<and>
   build_azure_url azure_deps (PStr ''unknown-id'') None =
     base_url azure_deps @ ''&agent-id=asst_default'' \<and>
   build_azure_url demo_deps (PStr ''unknown-id'') None = base_url demo_deps @ ''&model=gpt-4o'' \<and>
   connect_to_azure demo_deps (PList [PStr ''unknown-id'']) (initial_world [] None) =
     (False, initial_world [] None)"
proof -
  have r1: "reachable (cfg demo_deps) (manager demo_deps)"
    using demo_reachable by (simp add: demo_deps_def)
  have r2: "reachable (cfg azure_deps) (manager azure_deps)"
    using azure_reachable by (simp add: azure_deps_def demo_deps_def)
  have g1: "(if truthy (PStr ''local-agent-s1-0123abcd'')
             then get_agent (manager demo_deps) (PStr ''local-agent-s1-0123abcd'')
             else Inr None) = Inr (Some demo_local_profile)"
    by (simp add: get_agent_def demo_deps_def demo_manager_def)
  have g2: "(if truthy (PStr ''asst_42'') then get_agent (manager azure_deps) (PStr ''asst_42'')
             else Inr None) = Inr (Some demo_azure_profile)"
    by (simp add: get_agent_def azure_deps_def demo_deps_def azure_manager_def)
  have g3: "(if truthy (PStr ''unknown-id'') then get_agent (manager azure_deps) (PStr ''unknown-id'')
             else Inr None) = Inr None"
    by (simp add: get_agent_def azure_deps_def demo_deps_def azure_manager_def)
  have g4: "(if truthy (PStr ''unknown-id'') then get_agent (manager demo_deps) (PStr ''unknown-id'')
             else Inr None) = Inr None"
    by (simp add: get_agent_def demo_deps_def demo_manager_def)
  have f1: "map_of demo_local_profile ''is_azure_agent'' = Some (PBool False)"
    "map_of demo_local_profile ''model'' = Some (PStr ''gpt-4o-mini'')"
    by (simp_all add: demo_local_profile_def)
  have f2: "map_of demo_azure_profile ''is_azure_agent'' = Some (PBool True)"
    by (simp add: demo_azure_profile_def)
  have c: "agent_id_cfg (cfg azure_deps) = ''asst_default''" "agent_id_cfg (cfg demo_deps) = []"
    "model_deployment_name (cfg demo_deps) = ''gpt-4o''"
    by (simp_all add: azure_deps_def demo_deps_def azure_cfg_fields demo_cfg_fields)
  have a: "build_azure_url demo_deps (PStr ''local-agent-s1-0123abcd'') (Some demo_local_profile) =
     base_url demo_deps @ ''&model=gpt-4o-mini''"
  proof -
    have h: "\<not> truthy (PStr ''local-agent-s1-0123abcd'') \<or> hashable (PStr ''local-agent-s1-0123abcd'')" by (simp add: hashable_def)
    from upstream_url_routing [OF r1, of "PStr ''local-agent-s1-0123abcd''" "initial_world [] None",
        THEN conjunct1, THEN mp, OF h]
    obtain profile route where
      p: "(if truthy (PStr ''local-agent-s1-0123abcd'') then get_agent (manager demo_deps) (PStr ''local-agent-s1-0123abcd'') else Inr None) =
            Inr profile"
      and u: "build_azure_url demo_deps (PStr ''local-agent-s1-0123abcd'') profile = base_url demo_deps @ route"
      and l: "\<forall>d. profile = Some d \<and> map_of d ''is_azure_agent'' = Some (PBool False) \<longrightarrow>
                  (\<exists>M. map_of d ''model'' = Some M \<and>
                       route = ''&model='' @ py_format (fmt demo_deps) M)"
      by (elim exE conjE) (rule that; assumption)
    from p g1 have "profile = Some demo_local_profile" by simp
    with u l f1 show ?thesis by (auto simp: py_format_def)
  qed
  have b: "build_azure_url azure_deps (PStr ''asst_42'') (Some demo_azure_profile) =
     base_url azure_deps @ ''&agent-id=asst_42''"
  proof -
    have h: "\<not> truthy (PStr ''asst_42'') \<or> hashable (PStr ''asst_42'')" by (simp add: hashable_def)
    from upstream_url_routing [OF r2, of "PStr ''asst_42''" "initial_world [] None",
        THEN conjunct1, THEN mp, OF h]
    obtain profile route where
      p: "(if truthy (PStr ''asst_42'') then get_agent (manager azure_deps) (PStr ''asst_42'') else Inr None) =
            Inr profile"
      and u: "build_azure_url azure_deps (PStr ''asst_42'') profile = base_url azure_deps @ route"
      and l: "\<forall>s d. PStr ''asst_42'' = PStr s \<and> profile = Some d \<and>
                    map_of d ''is_azure_agent'' = Some (PBool True) \<longrightarrow>
                    route = ''&agent-id='' @ s"
      by (elim exE conjE) (rule that; assumption)
    from p g2 have "profile = Some demo_azure_profile" by simp
    with u l f2 show ?thesis by (auto)
  qed
  have d: "build_azure_url azure_deps (PStr ''unknown-id'') None =
     base_url azure_deps @ ''&agent-id=asst_default''"
  proof -
    have h: "\<not> truthy (PStr ''unknown-id'') \<or> hashable (PStr ''unknown-id'')" by (simp add: hashable_def)
    from upstream_url_routing [OF r2, of "PStr ''unknown-id''" "initial_world [] None",
        THEN conjunct1, THEN mp, OF h]
    obtain profile route where
      p: "(if truthy (PStr ''unknown-id'') then get_agent (manager azure_deps) (PStr ''unknown-id'') else Inr None) =
            Inr profile"
      and u: "build_azure_url azure_deps (PStr ''unknown-id'') profile = base_url azure_deps @ route"
      and l: "profile = None \<and> agent_id_cfg (cfg azure_deps) \<noteq> [] \<longrightarrow>
                route = ''&agent-id='' @ agent_id_cfg (cfg azure_deps)"
      by (elim exE conjE) (rule that; assumption)
    from p g3 have "profile = None" by simp
    with u l c show ?thesis by (auto)
  qed
  have e: "build_azure_url demo_deps (PStr ''unknown-id'') None = base_url demo_deps @ ''&model=gpt-4o''"
  proof -
    have h: "\<not> truthy (PStr ''unknown-id'') \<or> hashable (PStr ''unknown-id'')" by (simp add: hashable_def)
    from upstream_url_routing [OF r1, of "PStr ''unknown-id''" "initial_world [] None",
        THEN conjunct1, THEN mp, OF h]
    obtain profile route where
      p: "(if truthy (PStr ''unknown-id'') then get_agent (manager demo_deps) (PStr ''unknown-id'') else Inr None) =
            Inr profile"
      and u: "build_azure_url demo_deps (PStr ''unknown-id'') profile = base_url demo_deps @ route"
      and l: "profile = None \<and> agent_id_cfg (cfg demo_deps) = [] \<longrightarrow>
                route = ''&model='' @ model_deployment_name (cfg demo_deps)"
      by (elim exE conjE) (rule that; assumption)
    from p g4 have "profile = None" by simp
    with u l c show ?thesis by (auto)
  qed
  have u: "truthy (PList [PStr ''unknown-id'']) \<and> \<not> hashable (PList [PStr ''unknown-id''])"
    by (simp add: hashable_def)
  from upstream_url_routing [OF r1, of "PList [PStr ''unknown-id'']" "initial_world [] None",
      THEN conjunct2, THEN mp, OF u]
  have x: "connect_to_azure demo_deps (PList [PStr ''unknown-id'']) (initial_world [] None) =
     (False, initial_world [] None)" by (elim conjE)
  from a b d e x show ?thesis by (intro conjI)
qed

text \<open>
  C5, as stated, does not hold for every resolved local profile. The scenario below
  has a timestamp as its \<open>model\<close>; \<open>create_agent\<close> stores it in a local
  profile. In a session that names this agent, with the credential set and an
  upstream that accepts the connection and every write, \<open>json.dumps\<close> raises on
  the configuration message: the socket is opened, nothing is written to it, and the
  connector returns no socket. No configuration message with \<open>model\<close> is sent.
\<close>

theorem timestamp_model_nothing_sent:
  "create_agent demo_cfg (Inl AzureServiceError) ''89abcdef0123'' 0 ''s2'' dated_scenario
     (agent_manager_init demo_cfg False False) = Inr (''local-agent-s2-89abcdef'', dated_manager) \<and>
   get_agent (manager dated_deps) (PStr ''local-agent-s2-89abcdef'') = Inr (Some dated_profile) \<and>
   map_of dated_profile ''is_azure_agent'' = Some (PBool False) \<and>
   azure_openai_api_key (cfg dated_deps) = ''secret'' \<and>
   net dated_deps = Inr ([Text ''hi''], None) \<and>
   fst (connect_to_azure dated_deps (PStr ''local-agent-s2-89abcdef'') (initial_world [] None)) =
     False \<and>
   azure_opened (snd (connect_to_azure dated_deps (PStr ''local-agent-s2-89abcdef'')
     (initial_world [] None))) = 1 \<and>
   azure_out (snd (connect_to_azure dated_deps (PStr ''local-agent-s2-89abcdef'')
     (initial_world [] None))) = []"
proof -
  have g: "get_agent (manager dated_deps) (PStr ''local-agent-s2-89abcdef'') =
           Inr (Some dated_profile)"
    by (simp add: get_agent_def dated_deps_def demo_deps_def dated_manager_def)
  have f: "map_of dated_profile ''is_azure_agent'' = Some (PBool False)"
    by (simp add: dated_profile_def)
  have k: "azure_openai_api_key (cfg dated_deps) = ''secret''"
    "net dated_deps = Inr ([Text ''hi''], None)"
    by (simp_all add: dated_deps_def demo_deps_def demo_cfg_fields)
  have m: "initial_config_message (cfg dated_deps) (Some dated_profile) =
     Inr (PDict [(''type'', PStr ''session.update''),
                 (''session'', PDict (default_session @
                    [(''model'', PDatetime 20240101),
                     (''instructions'', PStr (''You are a buyer.'' @ BASE_INSTRUCTIONS)),
                     (''temperature'', PFloat (7 / 10)),
                     (''max_response_output_tokens'', PInt 2000)]))])"
    by (rule initial_config_local) (simp_all add: dated_profile_def)
  have c: "connect_to_azure dated_deps (PStr ''local-agent-s2-89abcdef'') (initial_world [] None) =
     (False, (initial_world [] None)
        \<lparr>connect_attempts :=
           [(build_azure_url dated_deps (PStr ''local-agent-s2-89abcdef'') (Some dated_profile),
             [(''api-key'', ''secret'')])],
         azure_opened := 1, azure_in := [Text ''hi''], azure_out := [], azure_budget := None,
         azure_closed := 0\<rparr>)"
    using g k m
    by (simp add: connect_to_azure_def Let_def websockets_connect_def send_initial_config_def
          json_dumps_def serialisable_local_message initial_world_def)
  from dated_create g f k c show ?thesis by simp
qed

text \<open>
  C5, amended. For every agent id whose lookup returns, the configuration message is
  built without an exception. It always holds the defaults. It holds \<open>model\<close>,
  \<open>instructions\<close>, \<open>temperature\<close> and \<open>max_response_output_tokens\<close>, with
  the values of the profile's \<open>model\<close>, \<open>instructions\<close>, \<open>temperature\<close>
  and \<open>max_tokens\<close>, exactly when a profile was resolved and its
  \<open>is_azure_agent\<close> is false; without a profile and for an Azure-hosted profile
  it is the defaults alone, which have none of the four keys and can always be
  serialised. The message of a local profile can be serialised exactly when the four
  values can. When the message can be serialised, the credential is set, the network
  accepts the connection and the upstream accepts one write, the connector returns
  the socket and the message is the one and first write on it. When the message
  cannot be serialised the connector returns no socket and writes nothing. Whenever
  the connector returns a socket, the message is the one write on it. For an agent
  id whose lookup raises, the connector returns no socket and leaves the world as it
  was.
\<close>

theorem initial_config_contents:
  assumes "reachable (cfg E) (manager E)"
  shows "(\<not> truthy agent_id \<or> hashable agent_id \<longrightarrow>
          (\<exists>profile message.
             (if truthy agent_id then get_agent (manager E) agent_id else Inr None) = Inr profile \<and>
             initial_config_message (cfg E) profile = Inr message \<and>
             (profile = None \<longrightarrow> message = defaults_message) \<and>
             (\<forall>d. profile = Some d \<and> map_of d ''is_azure_agent'' = Some (PBool True) \<longrightarrow>
                  message = defaults_message) \<and>
             (\<forall>d. profile = Some d \<and> map_of d ''is_azure_agent'' = Some (PBool False) \<longrightarrow>
                  (\<exists>M I T K. map_of d ''model'' = Some M \<and> map_of d ''instructions'' = Some I \<and>
                     map_of d ''temperature'' = Some T \<and> map_of d ''max_tokens'' = Some K \<and>
                     message =
                       PDict [(''type'', PStr ''session.update''),
                              (''session'', PDict (default_session @
                                 [(''model'', M), (''instructions'', I), (''temperature'', T),
                                  (''max_response_output_tokens'', K)]))] \<and>
                     serialisable message =
                       (serialisable M \<and> serialisable I \<and> serialisable T \<and> serialisable K))) \<and>
             (\<forall>d. profile = Some d \<longrightarrow> (\<exists>b. map_of d ''is_azure_agent'' = Some (PBool b))) \<and>
             (\<forall>w w'. connect_to_azure E agent_id w = (True, w') \<longrightarrow>
                  serialisable message \<and> azure_out w' = [JsonDumps message]) \<and>
             (\<forall>w frames budget.
                  azure_openai_api_key (cfg E) \<noteq> [] \<and> net E = Inr (frames, budget) \<and>
                  accepts budget 1 \<and> serialisable message \<longrightarrow>
                  fst (connect_to_azure E agent_id w) \<and>
                  azure_out (snd (connect_to_azure E agent_id w)) = [JsonDumps message]) \<and>
             (\<forall>w. \<not> serialisable message \<longrightarrow>
                  \<not> fst (connect_to_azure E agent_id w) \<and>
                  (azure_out (snd (connect_to_azure E agent_id w)) = azure_out w \<or>
                   azure_out (snd (connect_to_azure E agent_id w)) = [])))) \<and>
         (truthy agent_id \<and> \<not> hashable agent_id \<longrightarrow>
            (\<forall>w. connect_to_azure E agent_id w = (False, w))) \<and>
         serialisable defaults_message \<and>
         map_of default_session ''model'' = None \<and>
         map_of default_session ''instructions'' = None \<and>
         map_of default_session ''temperature'' = None \<and>
         map_of default_session ''max_response_output_tokens'' = None"
proof -
  have A: "\<not> truthy agent_id \<or> hashable agent_id \<longrightarrow>
          (\<exists>profile message.
             (if truthy agent_id then get_agent (manager E) agent_id else Inr None) = Inr profile \<and>
             initial_config_message (cfg E) profile = Inr message \<and>
             (profile = None \<longrightarrow> message = defaults_message) \<and>
             (\<forall>d. profile = Some d \<and> map_of d ''is_azure_agent'' = Some (PBool True) \<longrightarrow>
                  message = defaults_message) \<and>
             (\<forall>d. profile = Some d \<and> map_of d ''is_azure_agent'' = Some (PBool False) \<longrightarrow>
                  (\<exists>M I T K. map_of d ''model'' = Some M \<and> map_of d ''instructions'' = Some I \<and>
                     map_of d ''temperature'' = Some T \<and> map_of d ''max_tokens'' = Some K \<and>
                     message =
                       PDict [(''type'', PStr ''session.update''),
                              (''session'', PDict (default_session @
                                 [(''model'', M), (''instructions'', I), (''temperature'', T),
                                  (''max_response_output_tokens'', K)]))] \<and>
                     serialisable message =
                       (serialisable M \<and> serialisable I \<and> serialisable T \<and> serialisable K))) \<and>
             (\<forall>d. profile = Some d \<longrightarrow> (\<exists>b. map_of d ''is_azure_agent'' = Some (PBool b))) \<and>
             (\<forall>w w'. connect_to_azure E agent_id w = (True, w') \<longrightarrow>
                  serialisable message \<and> azure_out w' = [JsonDumps message]) \<and>
             (\<forall>w frames budget.
                  azure_openai_api_key (cfg E) \<noteq> [] \<and> net E = Inr (frames, budget) \<and>
                  accepts budget 1 \<and> serialisable message \<longrightarrow>
                  fst (connect_to_azure E agent_id w) \<and>
                  azure_out (snd (connect_to_azure E agent_id w)) = [JsonDumps message]) \<and>
             (\<forall>w. \<not> serialisable message \<longrightarrow>
                  \<not> fst (connect_to_azure E agent_id w) \<and>
                  (azure_out (snd (connect_to_azure E agent_id w)) = azure_out w \<or>
                   azure_out (snd (connect_to_azure E agent_id w)) = [])))"
  proof
    assume "\<not> truthy agent_id \<or> hashable agent_id"
    from resolve_hashable [OF this] obtain profile where
      r: "(if truthy agent_id then get_agent (manager E) agent_id else Inr None) = Inr profile"
      by blast
    from config_contents_resolved [OF assms r] obtain message where
      all: "initial_config_message (cfg E) profile = Inr message \<and>
           (profile = None \<longrightarrow> message = defaults_message) \<and>
           (\<forall>d. profile = Some d \<and> map_of d ''is_azure_agent'' = Some (PBool True) \<longrightarrow>
                message = defaults_message) \<and>
           (\<forall>d. profile = Some d \<and> map_of d ''is_azure_agent'' = Some (PBool False) \<longrightarrow>
                (\<exists>M I T K. map_of d ''model'' = Some M \<and> map_of d ''instructions'' = Some I \<and>
                   map_of d ''temperature'' = Some T \<and> map_of d ''max_tokens'' = Some K \<and>
                   message =
                     PDict [(''type'', PStr ''session.update''),
                            (''session'', PDict (default_session @
                               [(''model'', M), (''instructions'', I), (''temperature'', T),
                                (''max_response_output_tokens'', K)]))])) \<and>
           (\<forall>d. profile = Some d \<longrightarrow> (\<exists>b. map_of d ''is_azure_agent'' = Some (PBool b))) \<and>
           (\<forall>w w'. connect_to_azure E agent_id w = (True, w') \<longrightarrow>
                azure_out w' = [JsonDumps message]) \<and>
           map_of default_session ''model'' = None \<and>
           map_of default_session ''instructions'' = None \<and>
           map_of default_session ''temperature'' = None \<and>
           map_of default_session ''max_response_output_tokens'' = None"
      by (elim exE)
    from all have m: "initial_config_message (cfg E) profile = Inr message"
      by (elim conjE)
    from all have c1: "profile = None \<longrightarrow> message = defaults_message"
      by (elim conjE)
    from all have c2: "\<forall>d. profile = Some d \<and> map_of d ''is_azure_agent'' = Some (PBool True) \<longrightarrow>
                  message = defaults_message"
      by (elim conjE)
    from all have c3: "\<forall>d. profile = Some d \<and> map_of d ''is_azure_agent'' = Some (PBool False) \<longrightarrow>
                  (\<exists>M I T K. map_of d ''model'' = Some M \<and> map_of d ''instructions'' = Some I \<and>
                     map_of d ''temperature'' = Some T \<and> map_of d ''max_tokens'' = Some K \<and>
                     message =
                       PDict [(''type'', PStr ''session.update''),
                              (''session'', PDict (default_session @
                                 [(''model'', M), (''instructions'', I), (''temperature'', T),
                                  (''max_response_output_tokens'', K)]))])"
      by (elim conjE)
    from all have c4: "\<forall>d. profile = Some d \<longrightarrow> (\<exists>b. map_of d ''is_azure_agent'' = Some (PBool b))"
      by (elim conjE)
    have c3': "\<forall>d. profile = Some d \<and> map_of d ''is_azure_agent'' = Some (PBool False) \<longrightarrow>
                  (\<exists>M I T K. map_of d ''model'' = Some M \<and> map_of d ''instructions'' = Some I \<and>
                     map_of d ''temperature'' = Some T \<and> map_of d ''max_tokens'' = Some K \<and>
                     message =
                       PDict [(''type'', PStr ''session.update''),
                              (''session'', PDict (default_session @
                                 [(''model'', M), (''instructions'', I), (''temperature'', T),
                                  (''max_response_output_tokens'', K)]))] \<and>
                     serialisable message =
                       (serialisable M \<and> serialisable I \<and> serialisable T \<and> serialisable K))"
    proof (intro allI impI)
      fix d assume "profile = Some d \<and> map_of d ''is_azure_agent'' = Some (PBool False)"
      with c3 have "\<exists>M I T K. map_of d ''model'' = Some M \<and> map_of d ''instructions'' = Some I \<and>
                     map_of d ''temperature'' = Some T \<and> map_of d ''max_tokens'' = Some K \<and>
                     message =
                       PDict [(''type'', PStr ''session.update''),
                              (''session'', PDict (default_session @
                                 [(''model'', M), (''instructions'', I), (''temperature'', T),
                                  (''max_response_output_tokens'', K)]))]"
        by (elim allE impE)
      then obtain M I T K where f: "map_of d ''model'' = Some M"
        "map_of d ''instructions'' = Some I" "map_of d ''temperature'' = Some T"
        "map_of d ''max_tokens'' = Some K"
        "message = PDict [(''type'', PStr ''session.update''),
                          (''session'', PDict (default_session @
                             [(''model'', M), (''instructions'', I), (''temperature'', T),
                              (''max_response_output_tokens'', K)]))]"
        by (elim exE conjE)
      from f(5) have ser: "serialisable message =
          (serialisable M \<and> serialisable I \<and> serialisable T \<and> serialisable K)"
        by (simp only: serialisable_local_message)
      have "map_of d ''model'' = Some M \<and> map_of d ''instructions'' = Some I \<and>
                     map_of d ''temperature'' = Some T \<and> map_of d ''max_tokens'' = Some K \<and>
                     message =
                       PDict [(''type'', PStr ''session.update''),
                              (''session'', PDict (default_session @
                                 [(''model'', M), (''instructions'', I), (''temperature'', T),
                                  (''max_response_output_tokens'', K)]))] \<and>
                     serialisable message =
                       (serialisable M \<and> serialisable I \<and> serialisable T \<and> serialisable K)"
        using f ser by (intro conjI)
      then show "\<exists>M I T K. map_of d ''model'' = Some M \<and> map_of d ''instructions'' = Some I \<and>
                     map_of d ''temperature'' = Some T \<and> map_of d ''max_tokens'' = Some K \<and>
                     message =
                       PDict [(''type'', PStr ''session.update''),
                              (''session'', PDict (default_session @
                                 [(''model'', M), (''instructions'', I), (''temperature'', T),
                                  (''max_response_output_tokens'', K)]))] \<and>
                     serialisable message =
                       (serialisable M \<and> serialisable I \<and> serialisable T \<and> serialisable K)"
        by (intro exI)
    qed
    have safe: "\<forall>w w'. connect_to_azure E agent_id w = (True, w') \<longrightarrow>
                  serialisable message \<and> azure_out w' = [JsonDumps message]"
      using connect_success_serialisable [OF r m] by blast
    have pos: "\<forall>w frames budget.
                  azure_openai_api_key (cfg E) \<noteq> [] \<and> net E = Inr (frames, budget) \<and>
                  accepts budget 1 \<and> serialisable message \<longrightarrow>
                  fst (connect_to_azure E agent_id w) \<and>
                  azure_out (snd (connect_to_azure E agent_id w)) = [JsonDumps message]"
      using connect_sends [OF r m] by blast
    have neg: "\<forall>w. \<not> serialisable message \<longrightarrow>
                  \<not> fst (connect_to_azure E agent_id w) \<and>
                  (azure_out (snd (connect_to_azure E agent_id w)) = azure_out w \<or>
                   azure_out (snd (connect_to_azure E agent_id w)) = [])"
      using connect_unserialisable [OF r m] by blast
    show "(\<exists>profile message.
             (if truthy agent_id then get_agent (manager E) agent_id else Inr None) = Inr profile \<and>
             initial_config_message (cfg E) profile = Inr message \<and>
             (profile = None \<longrightarrow> message = defaults_message) \<and>
             (\<forall>d. profile = Some d \<and> map_of d ''is_azure_agent'' = Some (PBool True) \<longrightarrow>
                  message = defaults_message) \<and>
             (\<forall>d. profile = Some d \<and> map_of d ''is_azure_agent'' = Some (PBool False) \<longrightarrow>
                  (\<exists>M I T K. map_of d ''model'' = Some M \<and> map_of d ''instructions'' = Some I \<and>
                     map_of d ''temperature'' = Some T \<and> map_of d ''max_tokens'' = Some K \<and>
                     message =
                       PDict [(''type'', PStr ''session.update''),
                              (''session'', PDict (default_session @
                                 [(''model'', M), (''instructions'', I), (''temperature'', T),
                                  (''max_response_output_tokens'', K)]))] \<and>
                     serialisable message =
                       (serialisable M \<and> serialisable I \<and> serialisable T \<and> serialisable K))) \<and>
             (\<forall>d. profile = Some d \<longrightarrow> (\<exists>b. map_of d ''is_azure_agent'' = Some (PBool b))) \<and>
             (\<forall>w w'. connect_to_azure E agent_id w = (True, w') \<longrightarrow>
                  serialisable message \<and> azure_out w' = [JsonDumps message]) \<and>
             (\<forall>w frames budget.
                  azure_openai_api_key (cfg E) \<noteq> [] \<and> net E = Inr (frames, budget) \<and>
                  accepts budget 1 \<and> serialisable message \<longrightarrow>
                  fst (connect_to_azure E agent_id w) \<and>
                  azure_out (snd (connect_to_azure E agent_id w)) = [JsonDumps message]) \<and>
             (\<forall>w. \<not> serialisable message \<longrightarrow>
                  \<not> fst (connect_to_azure E agent_id w) \<and>
                  (azure_out (snd (connect_to_azure E agent_id w)) = azure_out w \<or>
                   azure_out (snd (connect_to_azure E agent_id w)) = [])))"
      by (rule exI [of _ profile], rule exI [of _ message], intro conjI)
         (fact r m c1 c2 c3' c4 safe pos neg)+
  qed
  have B: "truthy agent_id \<and> \<not> hashable agent_id \<longrightarrow>
            (\<forall>w. connect_to_azure E agent_id w = (False, w))"
  proof (intro impI allI)
    fix w assume "truthy agent_id \<and> \<not> hashable agent_id"
    from resolve_unhashable [OF this, of "manager E" E w]
    show "connect_to_azure E agent_id w = (False, w)" by (elim conjE)
  qed
  have C: "serialisable defaults_message \<and>
         map_of default_session ''model'' = None \<and>
         map_of default_session ''instructions'' = None \<and>
         map_of default_session ''temperature'' = None \<and>
         map_of default_session ''max_response_output_tokens'' = None"
    using serialisable_defaults default_session_keys by simp
  show ?thesis by (rule conjI [OF A], rule conjI [OF B], rule C)
qed

theorem initial_config_contents_witness:
  "fst (connect_to_azure demo_deps (PStr ''local-agent-s1-0123abcd'') (initial_world [] None)) \<and>
   azure_out (snd (connect_to_azure demo_deps (PStr ''local-agent-s1-0123abcd'')
     (initial_world [] None))) =
     [JsonDumps (PDict [(''type'', PStr ''session.update''),
                 (''session'', PDict (default_session @
                    [(''model'', PStr ''gpt-4o-mini''),
                     (''instructions'', PStr (''You are a buyer.'' @ BASE_INSTRUCTIONS)),
                     (''temperature'', PFloat (1 / 2)),
                     (''max_response_output_tokens'', PInt 500)]))])] \<and>
   \<not> fst (connect_to_azure dated_deps (PStr ''local-agent-s2-89abcdef'') (initial_world [] None)) \<and>
   connect_to_azure demo_deps (PList [PStr ''unknown-id'']) (initial_world [] None) =
     (False, initial_world [] None)"
proof -
  let ?local = "PDict [(''type'', PStr ''session.update''),
                 (''session'', PDict (default_session @
                    [(''model'', PStr ''gpt-4o-mini''),
                     (''instructions'', PStr (''You are a buyer.'' @ BASE_INSTRUCTIONS)),
                     (''temperature'', PFloat (1 / 2)),
                     (''max_response_output_tokens'', PInt 500)]))]"
  have r1: "reachable (cfg demo_deps) (manager demo_deps)"
    using demo_reachable by (simp add: demo_deps_def)
  have r3: "reachable (cfg dated_deps) (manager dated_deps)"
    using dated_reachable by (simp add: dated_deps_def demo_deps_def)
  have k: "azure_openai_api_key (cfg demo_deps) \<noteq> [] \<and> net demo_deps = Inr ([Text ''hi''], None) \<and>
           accepts None 1"
    by (simp add: demo_deps_def demo_cfg_fields accepts_def)
  have a: "fst (connect_to_azure demo_deps (PStr ''local-agent-s1-0123abcd'') (initial_world [] None)) \<and>
     azure_out (snd (connect_to_azure demo_deps (PStr ''local-agent-s1-0123abcd'')
       (initial_world [] None))) = [JsonDumps ?local]"
  proof -
    have h: "\<not> truthy (PStr ''local-agent-s1-0123abcd'') \<or> hashable (PStr ''local-agent-s1-0123abcd'')"
      by (simp add: hashable_def)
    have g: "(if truthy (PStr ''local-agent-s1-0123abcd'')
               then get_agent (manager demo_deps) (PStr ''local-agent-s1-0123abcd'')
               else Inr None) = Inr (Some demo_local_profile)"
      by (simp add: get_agent_def demo_deps_def demo_manager_def)
    have m: "initial_config_message (cfg demo_deps) (Some demo_local_profile) = Inr ?local"
      by (rule initial_config_local) (simp_all add: demo_local_profile_def)
    have ser: "serialisable ?local" by (simp add: default_session_def)
    from initial_config_contents [OF r1, of "PStr ''local-agent-s1-0123abcd''",
        THEN conjunct1, THEN mp, OF h]
    obtain profile message where
      p: "(if truthy (PStr ''local-agent-s1-0123abcd'')
            then get_agent (manager demo_deps) (PStr ''local-agent-s1-0123abcd'')
            else Inr None) = Inr profile"
      and i: "initial_config_message (cfg demo_deps) profile = Inr message"
      and pos: "\<forall>w frames budget.
                  azure_openai_api_key (cfg demo_deps) \<noteq> [] \<and> net demo_deps = Inr (frames, budget) \<and>
                  accepts budget 1 \<and> serialisable message \<longrightarrow>
                  fst (connect_to_azure demo_deps (PStr ''local-agent-s1-0123abcd'') w) \<and>
                  azure_out (snd (connect_to_azure demo_deps (PStr ''local-agent-s1-0123abcd'') w)) =
                    [JsonDumps message]"
      by (elim exE conjE) (rule that; assumption)
    from p g have "profile = Some demo_local_profile" by simp
    with i m have "message = ?local" by simp
    with pos [rule_format, of "[Text ''hi'']" None "initial_world [] None"] k ser
    show ?thesis by simp
  qed
  have b: "\<not> fst (connect_to_azure dated_deps (PStr ''local-agent-s2-89abcdef'') (initial_world [] None))"
  proof -
    let ?dated = "PDict [(''type'', PStr ''session.update''),
                 (''session'', PDict (default_session @
                    [(''model'', PDatetime 20240101),
                     (''instructions'', PStr (''You are a buyer.'' @ BASE_INSTRUCTIONS)),
                     (''temperature'', PFloat (7 / 10)),
                     (''max_response_output_tokens'', PInt 2000)]))]"
    have h: "\<not> truthy (PStr ''local-agent-s2-89abcdef'') \<or> hashable (PStr ''local-agent-s2-89abcdef'')"
      by (simp add: hashable_def)
    have g: "(if truthy (PStr ''local-agent-s2-89abcdef'')
               then get_agent (manager dated_deps) (PStr ''local-agent-s2-89abcdef'')
               else Inr None) = Inr (Some dated_profile)"
      by (simp add: get_agent_def dated_deps_def demo_deps_def dated_manager_def)
    have m: "initial_config_message (cfg dated_deps) (Some dated_profile) = Inr ?dated"
      by (rule initial_config_local) (simp_all add: dated_profile_def)
    have ser: "\<not> serialisable ?dated" by (simp add: default_session_def)
    from initial_config_contents [OF r3, of "PStr ''local-agent-s2-89abcdef''",
        THEN conjunct1, THEN mp, OF h]
    obtain profile message where
      p: "(if truthy (PStr ''local-agent-s2-89abcdef'')
            then get_agent (manager dated_deps) (PStr ''local-agent-s2-89abcdef'')
            else Inr None) = Inr profile"
      and i: "initial_config_message (cfg dated_deps) profile = Inr message"
      and neg: "\<forall>w. \<not> serialisable message \<longrightarrow>
                  \<not> fst (connect_to_azure dated_deps (PStr ''local-agent-s2-89abcdef'') w) \<and>
                  (azure_out (snd (connect_to_azure dated_deps (PStr ''local-agent-s2-89abcdef'') w)) =
                     azure_out w \<or>
                   azure_out (snd (connect_to_azure dated_deps (PStr ''local-agent-s2-89abcdef'') w)) =
                     [])"
      by (elim exE conjE) (rule that; assumption)
    from p g have "profile = Some dated_profile" by simp
    with i m have "message = ?dated" by simp
    with neg [rule_format, of "initial_world [] None"] ser show ?thesis by simp
  qed
  have u: "truthy (PList [PStr ''unknown-id'']) \<and> \<not> hashable (PList [PStr ''unknown-id''])"
    by (simp add: hashable_def)
  from initial_config_contents [OF r1, of "PList [PStr ''unknown-id'']",
      THEN conjunct2, THEN conjunct1, THEN mp, OF u]
  have x: "connect_to_azure demo_deps (PList [PStr ''unknown-id'']) (initial_world [] None) =
     (False, initial_world [] None)" by (elim allE)
  from a b x show ?thesis by (elim conjE, intro conjI)
qed

end
